theory Spec2Isabelle
  imports Main
begin

section \<open>Python library functions used by the daemon\<close>

text \<open>
  \<^verbatim>\<open>'%s' % n\<close> for an integer: the decimal digits, with a leading minus sign
  for a negative number.
\<close>

definition digit_char :: "nat \<Rightarrow> char" where
  "digit_char d = char_of (48 + d)"

fun str_nat :: "nat \<Rightarrow> string" where
  "str_nat n = (if n < 10 then [digit_char n] else str_nat (n div 10) @ [digit_char (n mod 10)])"

declare str_nat.simps [simp del]

definition str_int :: "int \<Rightarrow> string" where
  "str_int i = (if i < 0 then CHR ''-'' # str_nat (nat (- i)) else str_nat (nat i))"

text \<open>\<^verbatim>\<open>p.rfind(c)\<close>: the last index of the character, \<open>None\<close> for Python's -1.\<close>

fun rfind :: "char \<Rightarrow> string \<Rightarrow> nat option" where
  "rfind c [] = None"
| "rfind c (x # xs) =
     (case rfind c xs of
        Some i \<Rightarrow> Some (Suc i)
      | None \<Rightarrow> if x = c then Some 0 else None)"

text \<open>
  \<^verbatim>\<open>os.path.splitext\<close> (posixpath): the extension starts at the last dot, when that dot
  comes after the last slash and some character between the slash and the dot is not a
  dot; otherwise the extension is empty.
\<close>

definition splitext :: "string \<Rightarrow> string \<times> string" where
  "splitext p =
     (let filenameIndex = (case rfind CHR ''/'' p of None \<Rightarrow> 0 | Some s \<Rightarrow> Suc s) in
      case rfind CHR ''.'' p of
        None \<Rightarrow> (p, [])
      | Some dotIndex \<Rightarrow>
          if filenameIndex \<le> dotIndex
             \<and> list_ex (\<lambda>c. c \<noteq> CHR ''.'') (take (dotIndex - filenameIndex) (drop filenameIndex p))
          then (take dotIndex p, drop dotIndex p)
          else (p, []))"

text \<open>\<^verbatim>\<open>os.path.join(a, b)\<close> (posixpath) for two components.\<close>

definition path_join :: "string \<Rightarrow> string \<Rightarrow> string" where
  "path_join a b =
     (if b \<noteq> [] \<and> hd b = CHR ''/'' then b
      else if a = [] \<or> last a = CHR ''/'' then a @ b
      else a @ ''/'' @ b)"

text \<open>\<^verbatim>\<open>s.split(sep)\<close> for a separator of one character.\<close>

fun split_sep :: "char \<Rightarrow> string \<Rightarrow> string list" where
  "split_sep c [] = [[]]"
| "split_sep c (x # xs) =
     (if x = c then [] # split_sep c xs
      else (case split_sep c xs of
              [] \<Rightarrow> [[x]]
            | y # ys \<Rightarrow> (x # y) # ys))"

text \<open>\<^verbatim>\<open>text[a:b]\<close> for indices that are not negative.\<close>

definition slice :: "'a list \<Rightarrow> nat \<Rightarrow> nat \<Rightarrow> 'a list" where
  "slice xs a b = take (b - a) (drop a xs)"

section \<open>Matching RAW and JPEG images: class SyncRawJpeg\<close>

datatype SyncRawJpegStatus =
  matching_pair_status | no_match | error_already_downloaded | error_datetime_mismatch

text \<open>
  A capture time is compared for equality only; it is kept as the number of seconds of
  the timestamp. Sub-seconds are the string the metadata holds.
\<close>

type_synonym datetime = int

text \<open>
  The dict \<^verbatim>\<open>self.photos\<close>: name to the tuple (list of extensions, date time,
  sub-seconds, sequence number used).
\<close>

type_synonym 'q photos = "string \<rightharpoonup> (string list \<times> datetime \<times> string \<times> 'q)"

definition add_download ::
  "string \<Rightarrow> string \<Rightarrow> datetime \<Rightarrow> string \<Rightarrow> 'q \<Rightarrow> 'q photos \<Rightarrow> 'q photos" where
  "add_download name extension date_time sub_seconds sequence_number_used photos =
     (case photos name of
        None \<Rightarrow> photos(name \<mapsto> ([extension], date_time, sub_seconds, sequence_number_used))
      | Some (exts, dt, ss, q) \<Rightarrow>
          if extension \<notin> set exts then photos(name \<mapsto> (exts @ [extension], dt, ss, q))
          else photos)"

text \<open>The named tuple SyncRawJpegMatch: status and sequence number (\<open>None\<close> as in Python).\<close>

definition matching_pair ::
  "'q photos \<Rightarrow> string \<Rightarrow> string \<Rightarrow> datetime \<Rightarrow> string \<Rightarrow> SyncRawJpegStatus \<times> 'q option" where
  "matching_pair photos name extension date_time sub_seconds =
     (case photos name of
        Some (exts, dt, ss, q) \<Rightarrow>
          if dt = date_time \<and> ss = sub_seconds then
            if extension \<in> set exts then (error_already_downloaded, Some q)
            else (matching_pair_status, Some q)
          else (error_datetime_mismatch, None)
      | None \<Rightarrow> (no_match, None))"

text \<open>\<^verbatim>\<open>ext_exif_date_time\<close> reads the first extension; the list is never empty.\<close>

definition ext_exif_date_time :: "'q photos \<Rightarrow> string \<Rightarrow> (string \<times> datetime \<times> string) option" where
  "ext_exif_date_time photos name =
     (case photos name of
        Some (e # exts, dt, ss, q) \<Rightarrow> Some (e, dt, ss)
      | _ \<Rightarrow> None)"

section \<open>The preference editor: PrefEditor.generatePrefList\<close>

text \<open>
  The constants \<^verbatim>\<open>TEXT\<close> and \<^verbatim>\<open>SEPARATOR\<close> come from the module
  generatenameconfig; the functions below take them as parameters. The keys of
  \<^verbatim>\<open>pref_mapper\<close> are tuples of three strings, so \<^verbatim>\<open>string_to_pref_mapper\<close>
  maps a string to a triple. The document text and the highlighter's sorted list of
  boundaries (pairs of start and end index) are arguments. A \<^verbatim>\<open>KeyError\<close> ends
  the run without a result.
\<close>

datatype py_error = KeyError | AssertionError

record PrefEditor =
  subfolder :: bool
  string_to_pref_mapper :: "string \<rightharpoonup> (string \<times> string \<times> string)"
  pref_color :: "string \<rightharpoonup> string"
  user_pref_list :: "string list"
  user_pref_colors :: "string list"

text \<open>
  The loop of \<^verbatim>\<open>_parseTextFragment\<close> over the pieces between separators;
  \<^verbatim>\<open>index < len(text_fragments) - 1\<close> holds when pieces remain.
\<close>

fun parse_fragments :: "string \<Rightarrow> string \<Rightarrow> string list \<Rightarrow> PrefEditor \<Rightarrow> PrefEditor" where
  "parse_fragments TEXT SEPARATOR [] ed = ed"
| "parse_fragments TEXT SEPARATOR (text_fragment # rest) ed =
     (let ed1 = (if text_fragment \<noteq> []
                 then ed\<lparr>user_pref_list := user_pref_list ed @ [TEXT, text_fragment, []],
                         user_pref_colors := user_pref_colors ed @ [[]]\<rparr>
                 else ed);
          ed2 = (if rest \<noteq> []
                 then ed1\<lparr>user_pref_list := user_pref_list ed1 @ [SEPARATOR, [], []],
                          user_pref_colors := user_pref_colors ed1 @ [[]]\<rparr>
                 else ed1)
      in parse_fragments TEXT SEPARATOR rest ed2)"

definition parseTextFragment :: "string \<Rightarrow> string \<Rightarrow> string \<Rightarrow> PrefEditor \<Rightarrow> PrefEditor" where
  "parseTextFragment TEXT SEPARATOR text_fragment ed =
     (if subfolder ed
      then parse_fragments TEXT SEPARATOR (split_sep CHR ''/'' text_fragment) ed
      else ed\<lparr>user_pref_list := user_pref_list ed @ [TEXT, text_fragment, []],
              user_pref_colors := user_pref_colors ed @ [[]]\<rparr>)"

definition addColor :: "string \<Rightarrow> PrefEditor \<Rightarrow> py_error + PrefEditor" where
  "addColor pref_defn ed =
     (case pref_color ed pref_defn of
        None \<Rightarrow> Inl KeyError
      | Some c \<Rightarrow> Inr (ed\<lparr>user_pref_colors := user_pref_colors ed @ [c]\<rparr>))"

text \<open>
  The two statements that handle one pref value: extend the list by the triple found for
  the text between \<^verbatim>\<open><\<close> and \<^verbatim>\<open>>\<close>, then add its colour.
\<close>

definition add_pref_value :: "string \<Rightarrow> nat \<times> nat \<Rightarrow> PrefEditor \<Rightarrow> py_error + PrefEditor" where
  "add_pref_value text b ed =
     (case string_to_pref_mapper ed (slice text (fst b + 1) (snd b)) of
        None \<Rightarrow> Inl KeyError
      | Some (p0, p1, p2) \<Rightarrow>
          addColor (slice text (fst b) (snd b + 1))
            (ed\<lparr>user_pref_list := user_pref_list ed @ [p0, p1, p2]\<rparr>))"

text \<open>
  \<^verbatim>\<open>for index, item in enumerate(b[1:])\<close>: the pref value at \<^verbatim>\<open>b[index]\<close> and the
  text up to the next boundary \<^verbatim>\<open>item\<close>.
\<close>

fun pref_values_loop ::
  "string \<Rightarrow> string \<Rightarrow> string \<Rightarrow> (nat \<times> nat) list \<Rightarrow> PrefEditor \<Rightarrow> py_error + PrefEditor" where
  "pref_values_loop TEXT SEPARATOR text (b0 # item # bs) ed =
     (case add_pref_value text b0 ed of
        Inl e \<Rightarrow> Inl e
      | Inr ed1 \<Rightarrow>
          pref_values_loop TEXT SEPARATOR text (item # bs)
            (parseTextFragment TEXT SEPARATOR (slice text (snd b0 + 1) (fst item)) ed1))"
| "pref_values_loop TEXT SEPARATOR text bs ed = Inr ed"

definition final_pref_value ::
  "string \<Rightarrow> (nat \<times> nat) list \<Rightarrow> PrefEditor \<Rightarrow> py_error + (PrefEditor \<times> nat)" where
  "final_pref_value text b ed =
     (if b \<noteq> []
      then (case add_pref_value text (last b) ed of
              Inl e \<Rightarrow> Inl e
            | Inr ed' \<Rightarrow> Inr (ed', snd (last b) + 1))
      else Inr (ed, 0))"

text \<open>
  The closing \<^verbatim>\<open>assert len(self.user_pref_colors) == len(self.user_pref_list) / 3\<close>
  compares an integer with a true quotient: it holds when three times the first equals
  the second.
\<close>

definition generatePrefList ::
  "string \<Rightarrow> string \<Rightarrow> string \<Rightarrow> (nat \<times> nat) list \<Rightarrow> PrefEditor \<Rightarrow> py_error + PrefEditor" where
  "generatePrefList TEXT SEPARATOR text b ed0 =
     (let ed = ed0\<lparr>user_pref_list := [], user_pref_colors := []\<rparr>;
          ed1 = (if b \<noteq> [] \<and> fst (hd b) > 0
                 then parseTextFragment TEXT SEPARATOR (slice text 0 (fst (hd b))) ed
                 else ed)
      in case pref_values_loop TEXT SEPARATOR text b ed1 of
           Inl e \<Rightarrow> Inl e
         | Inr ed2 \<Rightarrow>
            (case final_pref_value text b ed2 of
               Inl e \<Rightarrow> Inl e
             | Inr (ed3, final) \<Rightarrow>
                 (let ed4 = (if final < length text
                             then parseTextFragment TEXT SEPARATOR (drop final text) ed3
                             else ed3)
                  in if 3 * length (user_pref_colors ed4) = length (user_pref_list ed4)
                     then Inr ed4
                     else Inl AssertionError)))"

text \<open>The invariant of the two lists: one colour for each triple of strings.\<close>

definition triples :: "PrefEditor \<Rightarrow> bool" where
  "triples ed \<longleftrightarrow> length (user_pref_list ed) = 3 * length (user_pref_colors ed)"

section \<open>The rename and move daemon: data\<close>

text \<open>
  The enumerations of the module constants, with the members the daemon names;
  \<open>download_pending\<close> stands for every status the daemon does not assign itself.
\<close>

datatype ConflictResolution = skip | add_identifier

datatype FileType = photo | video

datatype DownloadStatus =
  download_pending | downloaded | downloaded_with_warning | download_failed

text \<open>
  The problems the daemon adds to a file, named as in the module problemnotification.
  \<open>ERROR_IN_NAME_GENERATION\<close> carries the area that was blank,
  \<open>UNIQUE_IDENTIFIER_ADDED\<close> the identifier, and \<open>GENERATION_PROBLEM\<close> is a problem
  added by a name generator.
\<close>

datatype area = subfolder_and_filename | filename | subfolder_only

datatype problem_kind =
    CANNOT_DOWNLOAD_BAD_METADATA
  | FILE_ALREADY_EXISTS_NO_DOWNLOAD
  | UNIQUE_IDENTIFIER_ADDED string
  | DOWNLOAD_COPYING_ERROR
  | ERROR_IN_NAME_GENERATION area
  | FILE_ALREADY_DOWNLOADED
  | SAME_FILE_DIFFERENT_EXIF
  | GENERATION_PROBLEM string

text \<open>The metadata the daemon reads: \<^verbatim>\<open>date_time()\<close> and \<^verbatim>\<open>sub_seconds()\<close>.\<close>

record metadata =
  md_date_time :: datetime
  md_sub_seconds :: string

text \<open>
  The attributes of an RPDFile that the daemon reads or writes. \<open>readable_metadata\<close> is
  what \<^verbatim>\<open>rpd_file.load_metadata\<close> finds in the file (\<open>None\<close>: the read fails). A
  path attribute that is \<^verbatim>\<open>None\<close> or empty in Python is the empty string: the source
  tests these attributes for truth only. The texts \<^verbatim>\<open>error_title\<close>, \<^verbatim>\<open>error_msg\<close>
  and the extra details are formatted messages and are left out.
\<close>

record RPDFile =
  name :: string
  file_type :: FileType
  metadata :: "metadata option"
  readable_metadata :: "metadata option"
  status :: DownloadStatus
  problem :: "problem_kind list"
  strip_characters :: bool
  download_folder :: string
  subfolder_pref_list :: "string list"
  name_pref_list :: "string list"
  download_subfolder :: string
  download_name :: string
  download_path :: string
  download_full_file_name :: string
  download_full_base_name :: string
  temp_full_file_name :: string
  temp_thm_full_name :: string
  temp_audio_full_name :: string
  temp_xmp_full_name :: string
  thm_extension :: string
  audio_extension :: string
  xmp_extension :: string
  download_thm_full_name :: string
  download_audio_full_name :: string
  download_xmp_full_name :: string

definition add_problem :: "problem_kind \<Rightarrow> RPDFile \<Rightarrow> RPDFile" where
  "add_problem p rpd_file = rpd_file\<lparr>problem := problem rpd_file @ [p]\<rparr>"

definition has_problem :: "RPDFile \<Rightarrow> bool" where
  "has_problem rpd_file \<longleftrightarrow> problem rpd_file \<noteq> []"

text \<open>
  Modelled from the spec: the class DownloadsTodayTracker of the module preferences is not
  among the sources. The spec gives downloads today as a pair of date and count;
  \<^verbatim>\<open>get_or_reset_downloads_today\<close> is the spec's roll: when the current date (relative
  to the day start) differs from the stored date the count becomes 0 and the date is
  updated, else the count is kept. The current date is an argument.
  \<^verbatim>\<open>increment_downloads_today\<close> advances the count by one.
\<close>

record DownloadsTodayTracker =
  day_start :: string
  downloads_today :: "string \<times> int"

definition get_or_reset_downloads_today ::
  "string \<Rightarrow> DownloadsTodayTracker \<Rightarrow> int \<times> DownloadsTodayTracker" where
  "get_or_reset_downloads_today today t =
     (if fst (downloads_today t) \<noteq> today
      then (0, t\<lparr>downloads_today := (today, 0)\<rparr>)
      else (snd (downloads_today t), t))"

definition increment_downloads_today :: "DownloadsTodayTracker \<Rightarrow> DownloadsTodayTracker" where
  "increment_downloads_today t =
     t\<lparr>downloads_today := (fst (downloads_today t), snd (downloads_today t) + 1)\<rparr>"

text \<open>
  Modelled from the spec: the class Sequences of the module generatename is not among
  the sources. The spec's sequence state: the session sequence number (0 at its
  creation), the sequence letter index (reset at its creation), the stored sequence
  number (given to the constructor) and the optional matched sequence number.
  \<^verbatim>\<open>increment\<close> advances the session number and the letter index, each under its own
  flag; \<^verbatim>\<open>set_matched_sequence_value\<close> fills the matched slot. The constructor's
  other argument, the tracker, is kept by the worker and passed where it is read.
\<close>

record Sequences =
  session_sequence_no :: int
  sequence_letter :: int
  stored_sequence_no :: int
  matched_sequences :: "int option"

definition new_Sequences :: "int \<Rightarrow> Sequences" where
  "new_Sequences stored =
     \<lparr>session_sequence_no = 0, sequence_letter = 0, stored_sequence_no = stored,
      matched_sequences = None\<rparr>"

definition increment :: "bool \<Rightarrow> bool \<Rightarrow> Sequences \<Rightarrow> Sequences" where
  "increment uses_session_sequence_no uses_sequence_letter s =
     (let s1 = (if uses_session_sequence_no
                then s\<lparr>session_sequence_no := session_sequence_no s + 1\<rparr> else s)
      in if uses_sequence_letter
         then s1\<lparr>sequence_letter := sequence_letter s1 + 1\<rparr> else s1)"

definition set_matched_sequence_value :: "int option \<Rightarrow> Sequences \<Rightarrow> Sequences" where
  "set_matched_sequence_value v s = s\<lparr>matched_sequences := v\<rparr>"

text \<open>
  The rest of the module generatename is a parameter of the model: the four name
  generators, each made from a pref list and applied to a file, give the generated string
  (\<open>None\<close> as in Python) and the problems they add to the file; the file name generators
  also read the sequences the worker attaches to the file. \<open>create_matched_sequences\<close>
  is the value read from \<^verbatim>\<open>self.sequences.create_matched_sequences\<close>, which is never
  \<^verbatim>\<open>None\<close>.
\<close>

record generatename =
  PhotoSubfolder :: "string list \<Rightarrow> RPDFile \<Rightarrow> string option \<times> problem_kind list"
  VideoSubfolder :: "string list \<Rightarrow> RPDFile \<Rightarrow> string option \<times> problem_kind list"
  PhotoName :: "string list \<Rightarrow> RPDFile \<Rightarrow> Sequences \<Rightarrow> DownloadsTodayTracker
                 \<Rightarrow> string option \<times> problem_kind list"
  VideoName :: "string list \<Rightarrow> RPDFile \<Rightarrow> Sequences \<Rightarrow> DownloadsTodayTracker
                 \<Rightarrow> string option \<times> problem_kind list"
  create_matched_sequences :: "Sequences \<Rightarrow> DownloadsTodayTracker \<Rightarrow> int"

text \<open>
  The preferences the daemon reads. The methods \<^verbatim>\<open>must_synchronize_raw_jpg()\<close> and
  \<^verbatim>\<open>any_pref_uses_...()\<close> of the class Preferences (not among the sources) are
  functions of the stored preferences and appear as fields.
\<close>

record Preferences =
  conflict_resolution :: ConflictResolution
  must_synchronize_raw_jpg :: bool
  any_pref_uses_session_sequence_no :: bool
  any_pref_uses_sequence_letter_value :: bool
  any_pref_uses_stored_sequence_no :: bool
  prefs_stored_sequence_no :: int
  prefs_downloads_today :: "string \<times> int"
  prefs_day_start :: string
  prefs_strip_characters :: bool
  photo_download_folder :: string
  video_download_folder :: string
  photo_subfolder :: "string list"
  video_subfolder :: "string list"
  photo_rename :: "string list"
  video_rename :: "string list"

subsection \<open>The file system\<close>

text \<open>
  The paths that exist, the paths that are directories, and for each call that changes
  the file system the error number it raises, if any, as the environment decides
  (permissions, a full disk). \<open>calls\<close> records every such call the daemon makes, whether
  it succeeds or not. The calls are taken to raise \<^verbatim>\<open>OSError\<close> only.
\<close>

datatype fs_call = Makedirs string | Rename string string | Remove string

record filesystem =
  existing :: "string list"
  directories :: "string list"
  makedirs_raises :: "string \<Rightarrow> int option"
  rename_raises :: "string \<Rightarrow> string \<Rightarrow> int option"
  remove_raises :: "string \<Rightarrow> int option"
  calls :: "fs_call list"

definition EEXIST :: int where "EEXIST = 17"

definition ENOENT :: int where "ENOENT = 2"

definition os_path_exists :: "filesystem \<Rightarrow> string \<Rightarrow> bool" where
  "os_path_exists f p \<longleftrightarrow> p \<in> set (existing f)"

definition os_path_isdir :: "filesystem \<Rightarrow> string \<Rightarrow> bool" where
  "os_path_isdir f p \<longleftrightarrow> p \<in> set (directories f)"

text \<open>\<^verbatim>\<open>os.makedirs\<close>: the error number raised, if any, and the file system afterwards.\<close>

definition os_makedirs :: "filesystem \<Rightarrow> string \<Rightarrow> int option \<times> filesystem" where
  "os_makedirs f p =
     (let f1 = f\<lparr>calls := calls f @ [Makedirs p]\<rparr> in
      if p \<in> set (existing f) then (Some EEXIST, f1)
      else case makedirs_raises f p of
             Some e \<Rightarrow> (Some e, f1)
           | None \<Rightarrow> (None, f1\<lparr>existing := p # existing f1, directories := p # directories f1\<rparr>))"

text \<open>\<^verbatim>\<open>os.rename\<close>: a missing source raises \<^verbatim>\<open>ENOENT\<close>.\<close>

definition os_rename :: "filesystem \<Rightarrow> string \<Rightarrow> string \<Rightarrow> int option \<times> filesystem" where
  "os_rename f src dst =
     (let f1 = f\<lparr>calls := calls f @ [Rename src dst]\<rparr> in
      case rename_raises f src dst of
        Some e \<Rightarrow> (Some e, f1)
      | None \<Rightarrow>
          if src \<notin> set (existing f) then (Some ENOENT, f1)
          else (None, f1\<lparr>existing := List.insert dst (removeAll src (existing f1))\<rparr>))"

definition os_remove :: "filesystem \<Rightarrow> string \<Rightarrow> int option \<times> filesystem" where
  "os_remove f p =
     (let f1 = f\<lparr>calls := calls f @ [Remove p]\<rparr> in
      case remove_raises f p of
        Some e \<Rightarrow> (Some e, f1)
      | None \<Rightarrow>
          if p \<notin> set (existing f) then (Some ENOENT, f1)
          else (None, f1\<lparr>existing := removeAll p (existing f1)\<rparr>))"

text \<open>
  \<^verbatim>\<open>os.rename\<close> raises \<^verbatim>\<open>EEXIST\<close> only for a destination that is there (a
  directory that is not empty). A file system that keeps to this is called consistent.
\<close>

definition rename_consistent :: "filesystem \<Rightarrow> bool" where
  "rename_consistent f \<longleftrightarrow>
     (\<forall>src dst. rename_raises f src dst = Some EEXIST \<longrightarrow> dst \<in> set (existing f))"

subsection \<open>The worker\<close>

text \<open>
  The attributes of RenameMoveFileWorker. \<open>sync_raw_jpeg\<close> is the dict of the SyncRawJpeg
  object made in \<^verbatim>\<open>__init__\<close>; \<open>duplicate_files\<close> is made when \<^verbatim>\<open>run\<close> starts;
  \<open>sequences\<close> and \<open>downloads_today_tracker\<close> are assigned by the message
  download_started, and \<open>session_attributes\<close> tells whether that has happened.
  \<open>logged_errors\<close> collects the messages of \<^verbatim>\<open>logging.error\<close>.
  \<open>et_process\<close> tells whether the worker has an attribute \<^verbatim>\<open>et_process\<close>, which
  \<^verbatim>\<open>sync_raw_jpg\<close> reads: no source file assigns it (\<^verbatim>\<open>run\<close> binds
  \<^verbatim>\<open>exiftool_process\<close>), and the base class DaemonProcess is not among the sources,
  so the field is a parameter of the model.
\<close>

record worker =
  prefs :: Preferences
  sync_raw_jpeg :: "int photos"
  duplicate_files :: "string \<rightharpoonup> int"
  sequences :: Sequences
  downloads_today_tracker :: DownloadsTodayTracker
  session_attributes :: bool
  et_process :: bool
  fs :: filesystem
  logged_errors :: "string list"

definition logging_error :: "string \<Rightarrow> worker \<Rightarrow> worker" where
  "logging_error msg w = w\<lparr>logged_errors := logged_errors w @ [msg]\<rparr>"

text \<open>
  Reading an attribute that the worker does not have raises \<^verbatim>\<open>AttributeError\<close>;
  nothing in the daemon catches it, and \<^verbatim>\<open>run\<close> ends.
\<close>

datatype run_error = AttributeError

text \<open>
  The text of an \<^verbatim>\<open>OSError\<close>. The messages of the C library are not modelled: the
  error number stands for the reason.
\<close>

definition os_strerror :: "int \<Rightarrow> string" where
  "os_strerror e = ''Errno '' @ str_int e"

section \<open>The rename and move daemon: operations\<close>

text \<open>The module function \<^verbatim>\<open>load_metadata\<close>.\<close>

definition load_metadata :: "RPDFile \<Rightarrow> bool \<times> RPDFile" where
  "load_metadata rpd_file =
     (if metadata rpd_file = None then
        (case readable_metadata rpd_file of
           None \<Rightarrow> (False, add_problem CANNOT_DOWNLOAD_BAD_METADATA rpd_file)
         | Some m \<Rightarrow> (True, rpd_file\<lparr>metadata := Some m\<rparr>))
      else (True, rpd_file))"

text \<open>
  \<^verbatim>\<open>_generate_name\<close>: the generator runs on the file with its metadata loaded; its
  problems are added to the file; \<^verbatim>\<open>None\<close> becomes the empty string.
\<close>

definition generate_name_with ::
  "(RPDFile \<Rightarrow> string option \<times> problem_kind list) \<Rightarrow> RPDFile \<Rightarrow> string \<times> RPDFile" where
  "generate_name_with generator rpd_file =
     (case load_metadata rpd_file of
        (True, rpd1) \<Rightarrow>
          (case generator rpd1 of
             (v, ps) \<Rightarrow>
               ((case v of None \<Rightarrow> [] | Some s \<Rightarrow> s), rpd1\<lparr>problem := problem rpd1 @ ps\<rparr>))
      | (False, rpd1) \<Rightarrow> ([], rpd1))"

definition generate_subfolder :: "generatename \<Rightarrow> RPDFile \<Rightarrow> RPDFile" where
  "generate_subfolder gn rpd_file =
     (let generator = (if file_type rpd_file = photo
                       then PhotoSubfolder gn (subfolder_pref_list rpd_file)
                       else VideoSubfolder gn (subfolder_pref_list rpd_file))
      in case generate_name_with generator rpd_file of
           (v, rpd1) \<Rightarrow> rpd1\<lparr>download_subfolder := v\<rparr>)"

definition generate_name ::
  "generatename \<Rightarrow> Sequences \<Rightarrow> DownloadsTodayTracker \<Rightarrow> RPDFile \<Rightarrow> RPDFile" where
  "generate_name gn sq tr rpd_file =
     (let generator = (if file_type rpd_file = photo
                       then (\<lambda>r. PhotoName gn (name_pref_list rpd_file) r sq tr)
                       else (\<lambda>r. VideoName gn (name_pref_list rpd_file) r sq tr))
      in case generate_name_with generator rpd_file of
           (v, rpd1) \<Rightarrow> rpd1\<lparr>download_name := v\<rparr>)"

definition notify_file_already_exists :: "string option \<Rightarrow> RPDFile \<Rightarrow> RPDFile" where
  "notify_file_already_exists identifier rpd_file =
     (case identifier of
        None \<Rightarrow>
          (add_problem FILE_ALREADY_EXISTS_NO_DOWNLOAD rpd_file)\<lparr>status := download_failed\<rparr>
      | Some i \<Rightarrow>
          (add_problem (UNIQUE_IDENTIFIER_ADDED i) rpd_file)\<lparr>status := downloaded_with_warning\<rparr>)"

definition notify_download_failure_file_error ::
  "RPDFile \<Rightarrow> string \<Rightarrow> worker \<Rightarrow> RPDFile \<times> worker" where
  "notify_download_failure_file_error rpd_file inst w =
     ((add_problem DOWNLOAD_COPYING_ERROR rpd_file)\<lparr>status := download_failed\<rparr>,
      logging_error
        (''Failed to create file '' @ download_full_file_name rpd_file @ '': '' @ inst) w)"

definition download_file_exists :: "worker \<Rightarrow> RPDFile \<Rightarrow> bool \<times> RPDFile" where
  "download_file_exists w rpd_file =
     (if conflict_resolution (prefs w) = add_identifier then (True, rpd_file)
      else (False, notify_file_already_exists None rpd_file))"

definition same_name_different_exif :: "RPDFile \<Rightarrow> RPDFile" where
  "same_name_different_exif rpd_file =
     (add_problem SAME_FILE_DIFFERENT_EXIF rpd_file)\<lparr>status := downloaded_with_warning\<rparr>"

text \<open>\<^verbatim>\<open>_move_associate_file\<close>: any exception of the rename gives \<open>False\<close>.\<close>

definition move_associate_file ::
  "string \<Rightarrow> string \<Rightarrow> string \<Rightarrow> filesystem \<Rightarrow> (bool \<times> string) \<times> filesystem" where
  "move_associate_file extension full_base_name temp_associate_file f =
     (let download_full_name = full_base_name @ extension in
      case os_rename f temp_associate_file download_full_name of
        (None, f1) \<Rightarrow> ((True, download_full_name), f1)
      | (Some e, f1) \<Rightarrow> ((False, download_full_name), f1))"

definition move_thm_file :: "RPDFile \<Rightarrow> worker \<Rightarrow> RPDFile \<times> worker" where
  "move_thm_file rpd_file w =
     (let ext = (if thm_extension rpd_file \<noteq> [] then thm_extension rpd_file else ''.THM'') in
      case move_associate_file ext (download_full_base_name rpd_file)
             (temp_thm_full_name rpd_file) (fs w) of
        ((result, full_name), f1) \<Rightarrow>
          (let rpd1 = rpd_file\<lparr>download_thm_full_name := full_name\<rparr>;
               w1 = w\<lparr>fs := f1\<rparr>
           in if \<not> result
              then (rpd1, logging_error (''Failed to move video THM file '' @ full_name) w1)
              else (rpd1, w1)))"

definition move_audio_file :: "RPDFile \<Rightarrow> worker \<Rightarrow> RPDFile \<times> worker" where
  "move_audio_file rpd_file w =
     (let ext = (if audio_extension rpd_file \<noteq> [] then audio_extension rpd_file else ''.WAV'') in
      case move_associate_file ext (download_full_base_name rpd_file)
             (temp_audio_full_name rpd_file) (fs w) of
        ((result, full_name), f1) \<Rightarrow>
          (let rpd1 = rpd_file\<lparr>download_audio_full_name := full_name\<rparr>;
               w1 = w\<lparr>fs := f1\<rparr>
           in if \<not> result
              then (rpd1, logging_error
                            (''Failed to move file's associated audio file '' @ full_name) w1)
              else (rpd1, w1)))"

text \<open>The copy and rename of the XMP sidecar at the end of \<^verbatim>\<open>process_file\<close>.\<close>

definition move_xmp_file :: "RPDFile \<Rightarrow> worker \<Rightarrow> RPDFile \<times> worker" where
  "move_xmp_file rpd_file w =
     (let xmp_full_name = download_full_base_name rpd_file @ xmp_extension rpd_file in
      case os_rename (fs w) (temp_xmp_full_name rpd_file) xmp_full_name of
        (None, f1) \<Rightarrow> (rpd_file\<lparr>download_xmp_full_name := xmp_full_name\<rparr>, w\<lparr>fs := f1\<rparr>)
      | (Some e, f1) \<Rightarrow>
          (rpd_file,
           logging_error (''Failed to move XMP sidecar file '' @ xmp_full_name) (w\<lparr>fs := f1\<rparr>)))"

definition name_generation_area :: "RPDFile \<Rightarrow> area" where
  "name_generation_area rpd_file =
     (if download_subfolder rpd_file = [] \<and> download_name rpd_file = []
      then subfolder_and_filename
      else if download_name rpd_file = [] then filename
      else subfolder_only)"

definition check_for_fatal_name_generation_errors :: "RPDFile \<Rightarrow> bool \<times> RPDFile" where
  "check_for_fatal_name_generation_errors rpd_file =
     (if download_subfolder rpd_file = [] \<or> download_name rpd_file = [] then
        (False,
         (add_problem (ERROR_IN_NAME_GENERATION (name_generation_area rpd_file)) rpd_file)
           \<lparr>status := download_failed\<rparr>)
      else (True, rpd_file))"

text \<open>\<^verbatim>\<open>self.duplicate_files.get(full_name, 0)\<close>.\<close>

definition duplicate_files_get :: "worker \<Rightarrow> string \<Rightarrow> int" where
  "duplicate_files_get w full_name =
     (case duplicate_files w full_name of None \<Rightarrow> 0 | Some k \<Rightarrow> k)"

text \<open>
  The loop \<^verbatim>\<open>while True\<close> of \<^verbatim>\<open>add_unique_identifier\<close>. The source has no bound
  on the number of rounds, so the model is a partial function: \<open>None\<close> is a run that
  never returns. A name that exists raises \<^verbatim>\<open>EEXIST\<close> before any rename, and the
  handler lets the loop go on for \<^verbatim>\<open>EEXIST\<close> alone.
\<close>

partial_function (option) add_unique_identifier_loop ::
  "string \<times> string \<Rightarrow> string \<Rightarrow> RPDFile \<Rightarrow> worker \<Rightarrow> (bool \<times> RPDFile \<times> worker) option" where
  "add_unique_identifier_loop nm full_name rpd_file w =
     (let n = duplicate_files_get w full_name + 1;
          w1 = w\<lparr>duplicate_files := (duplicate_files w)(full_name \<mapsto> n)\<rparr>;
          identifier = ''_'' @ str_int n;
          rpd1 = rpd_file\<lparr>download_name := fst nm @ identifier @ snd nm\<rparr>;
          rpd2 = rpd1\<lparr>download_full_file_name :=
                        path_join (download_path rpd1) (download_name rpd1)\<rparr>
      in if os_path_exists (fs w1) (download_full_file_name rpd2)
         then add_unique_identifier_loop nm full_name rpd2 w1
         else (case os_rename (fs w1) (temp_full_file_name rpd2) (download_full_file_name rpd2) of
                 (None, f1) \<Rightarrow>
                   Some (True, notify_file_already_exists (Some identifier) rpd2, w1\<lparr>fs := f1\<rparr>)
               | (Some e, f1) \<Rightarrow>
                   if e \<noteq> EEXIST
                   then (case notify_download_failure_file_error rpd2 (os_strerror e)
                                (w1\<lparr>fs := f1\<rparr>) of
                           (rpd3, w3) \<Rightarrow> Some (False, rpd3, w3))
                   else add_unique_identifier_loop nm full_name rpd2 (w1\<lparr>fs := f1\<rparr>)))"

declare add_unique_identifier_loop.simps [code]

definition add_unique_identifier :: "RPDFile \<Rightarrow> worker \<Rightarrow> (bool \<times> RPDFile \<times> worker) option" where
  "add_unique_identifier rpd_file w =
     add_unique_identifier_loop (splitext (download_name rpd_file))
       (download_full_file_name rpd_file) rpd_file w"

text \<open>The named tuple SyncRawJpegResult.\<close>

record SyncRawJpegResult =
  sequence_to_use :: "int option"
  failed :: bool
  photo_name :: string
  photo_ext :: string

text \<open>
  \<^verbatim>\<open>sync_raw_jpg\<close>. Its first use of the worker reads \<^verbatim>\<open>self.et_process\<close>, and the
  branch for a file that is not already downloaded reads \<^verbatim>\<open>self.sequences\<close>: a
  missing attribute raises \<^verbatim>\<open>AttributeError\<close>.
\<close>

definition sync_raw_jpg ::
  "RPDFile \<Rightarrow> worker \<Rightarrow> run_error + SyncRawJpegResult \<times> RPDFile \<times> worker" where
  "sync_raw_jpg rpd_file w =
     (case splitext (name rpd_file) of
        (pname, pext) \<Rightarrow>
          if \<not> et_process w then Inl AttributeError
          else
          (case load_metadata rpd_file of
             (False, rpd1) \<Rightarrow>
               Inr (\<lparr>sequence_to_use = None, failed = True, photo_name = pname,
                      photo_ext = pext\<rparr>,
                    snd (check_for_fatal_name_generation_errors
                           (rpd1\<lparr>status := download_failed\<rparr>)),
                    w)
           | (True, rpd1) \<Rightarrow>
               (case metadata rpd1 of
                  None \<Rightarrow>
                    Inr (\<lparr>sequence_to_use = None, failed = True, photo_name = pname,
                           photo_ext = pext\<rparr>, rpd1, w)
                | Some m \<Rightarrow>
                    (case matching_pair (sync_raw_jpeg w) pname pext
                            (md_date_time m) (md_sub_seconds m) of
                       (st, sequence_number) \<Rightarrow>
                         if st = error_already_downloaded then
                           if conflict_resolution (prefs w) \<noteq> add_identifier
                           then Inr (\<lparr>sequence_to_use = sequence_number, failed = True,
                                       photo_name = pname, photo_ext = pext\<rparr>,
                                     (add_problem FILE_ALREADY_DOWNLOADED rpd1)
                                       \<lparr>status := download_failed\<rparr>,
                                     w)
                           else Inr (\<lparr>sequence_to_use = sequence_number, failed = False,
                                       photo_name = pname, photo_ext = pext\<rparr>, rpd1, w)
                         else if \<not> session_attributes w then Inl AttributeError
                         else
                           Inr (\<lparr>sequence_to_use = sequence_number, failed = False,
                                  photo_name = pname, photo_ext = pext\<rparr>,
                                (if st = error_datetime_mismatch
                                 then same_name_different_exif rpd1 else rpd1),
                                w\<lparr>sequences :=
                                     set_matched_sequence_value sequence_number
                                       (sequences w)\<rparr>)))))"

definition prepare_rpd_file :: "worker \<Rightarrow> RPDFile \<Rightarrow> RPDFile" where
  "prepare_rpd_file w rpd_file =
     (if file_type rpd_file = photo
      then rpd_file\<lparr>download_folder := photo_download_folder (prefs w),
                    subfolder_pref_list := photo_subfolder (prefs w),
                    name_pref_list := photo_rename (prefs w)\<rparr>
      else rpd_file\<lparr>download_folder := video_download_folder (prefs w),
                    subfolder_pref_list := video_subfolder (prefs w),
                    name_pref_list := video_rename (prefs w)\<rparr>)"

text \<open>
  \<^verbatim>\<open>process_rename_failure\<close>: one line is logged about the file, then the temporary
  file is removed, and a failure of the removal is logged too. The empty list of problems
  stands for \<^verbatim>\<open>rpd_file.problem is None\<close>. The logged line names the file by
  \<open>download_full_file_name\<close>; the \<^verbatim>\<open>full_file_name\<close> and the title and text of
  the problem, which the source formats into the line, are not part of the record.
\<close>

definition process_rename_failure :: "RPDFile \<Rightarrow> worker \<Rightarrow> worker" where
  "process_rename_failure rpd_file w =
     (let w1 = (if problem rpd_file = []
                then logging_error (download_full_file_name rpd_file
                                      @ '' has no problem information'') w
                else logging_error (''Problem with '' @ download_full_file_name rpd_file) w)
      in case os_remove (fs w1) (temp_full_file_name rpd_file) of
           (None, f1) \<Rightarrow> w1\<lparr>fs := f1\<rparr>
         | (Some e, f1) \<Rightarrow>
             logging_error (''Failed to delete temporary file '' @ temp_full_file_name rpd_file)
               (w1\<lparr>fs := f1\<rparr>))"

text \<open>
  \<^verbatim>\<open>generate_names\<close>. When the subfolder is not empty the file is given
  \<^verbatim>\<open>self.sequences\<close>, which raises \<^verbatim>\<open>AttributeError\<close> before the first
  download_started.
\<close>

definition generate_names ::
  "generatename \<Rightarrow> worker \<Rightarrow> RPDFile \<Rightarrow> run_error + bool \<times> RPDFile" where
  "generate_names gn w rpd_file =
     (let rpd1 = generate_subfolder gn
                   (rpd_file\<lparr>strip_characters := prefs_strip_characters (prefs w)\<rparr>)
      in if download_subfolder rpd1 \<noteq> [] then
           if \<not> session_attributes w then Inl AttributeError
           else
             (let rpd3 = generate_name gn (sequences w) (downloads_today_tracker w) rpd1
              in Inr (check_for_fatal_name_generation_errors
                        (if has_problem rpd3
                         then rpd3\<lparr>status := downloaded_with_warning\<rparr> else rpd3)))
         else Inr (check_for_fatal_name_generation_errors rpd1))"

text \<open>
  The lines of \<^verbatim>\<open>move_file\<close> that make the download path when it is not a
  directory; a failure other than \<^verbatim>\<open>EEXIST\<close> is logged, in two lines, and the
  move goes on.
\<close>

definition make_download_path :: "string \<Rightarrow> worker \<Rightarrow> worker" where
  "make_download_path p w =
     (if \<not> os_path_isdir (fs w) p then
        (case os_makedirs (fs w) p of
           (None, f1) \<Rightarrow> w\<lparr>fs := f1\<rparr>
         | (Some e, f1) \<Rightarrow>
             if e \<noteq> EEXIST
             then logging_error (os_strerror e)
                    (logging_error (''Failed to create download subfolder: '' @ p)
                       (w\<lparr>fs := f1\<rparr>))
             else w\<lparr>fs := f1\<rparr>)
      else w)"

text \<open>
  \<^verbatim>\<open>move_file\<close>. The result of \<^verbatim>\<open>self.add_unique_identifier(rpd_file)\<close> is not
  assigned in the source: \<open>move_succeeded\<close> stays \<open>False\<close> on that path.
\<close>

definition move_file :: "RPDFile \<Rightarrow> worker \<Rightarrow> (bool \<times> RPDFile \<times> worker) option" where
  "move_file rpd_file w =
     (let rpd1 = rpd_file\<lparr>download_path :=
                    path_join (download_folder rpd_file) (download_subfolder rpd_file)\<rparr>;
          rpd2 = rpd1\<lparr>download_full_file_name :=
                    path_join (download_path rpd1) (download_name rpd1)\<rparr>;
          rpd3 = rpd2\<lparr>download_full_base_name := fst (splitext (download_full_file_name rpd2))\<rparr>;
          w1 = make_download_path (download_path rpd3) w
      in if os_path_exists (fs w1) (download_full_file_name rpd3) then
           (case download_file_exists w1 rpd3 of
              (True, rpd4) \<Rightarrow>
                (case add_unique_identifier rpd4 w1 of
                   None \<Rightarrow> None
                 | Some (r, rpd5, w5) \<Rightarrow> Some (False, rpd5, w5))
            | (False, rpd4) \<Rightarrow> Some (False, rpd4, w1))
         else
           (case os_rename (fs w1) (temp_full_file_name rpd3) (download_full_file_name rpd3) of
              (None, f2) \<Rightarrow>
                Some (True,
                      (if status rpd3 \<noteq> downloaded_with_warning
                       then rpd3\<lparr>status := downloaded\<rparr> else rpd3),
                      w1\<lparr>fs := f2\<rparr>)
            | (Some e, f2) \<Rightarrow>
                if e = EEXIST then
                  (case download_file_exists (w1\<lparr>fs := f2\<rparr>) rpd3 of
                     (True, rpd4) \<Rightarrow>
                       (case add_unique_identifier rpd4 (w1\<lparr>fs := f2\<rparr>) of
                          None \<Rightarrow> None
                        | Some (r, rpd5, w5) \<Rightarrow> Some (False, rpd5, w5))
                   | (False, rpd4) \<Rightarrow> Some (False, rpd4, w1\<lparr>fs := f2\<rparr>))
                else
                  (case notify_download_failure_file_error rpd3 (os_strerror e)
                          (w1\<lparr>fs := f2\<rparr>) of
                     (rpd4, w4) \<Rightarrow> Some (False, rpd4, w4))))"

text \<open>
  The part of \<^verbatim>\<open>process_file\<close> that runs when the move succeeded: the record in the
  pairing tracker, the sequence values, the sidecar files. \<open>sync\<close> is the result of
  \<^verbatim>\<open>sync_raw_jpg\<close> when RAW and JPEG are synchronised for this file, else \<open>None\<close>.
\<close>

definition record_download ::
  "generatename \<Rightarrow> SyncRawJpegResult \<Rightarrow> RPDFile \<Rightarrow> worker \<Rightarrow> worker" where
  "record_download gn sync_result rpd_file w =
     (let sq = (case sequence_to_use sync_result of
                  None \<Rightarrow> create_matched_sequences gn (sequences w) (downloads_today_tracker w)
                | Some q \<Rightarrow> q)
      in case metadata rpd_file of
           None \<Rightarrow> w
         | Some m \<Rightarrow>
             w\<lparr>sync_raw_jpeg :=
                 add_download (photo_name sync_result) (photo_ext sync_result)
                   (md_date_time m) (md_sub_seconds m) sq (sync_raw_jpeg w)\<rparr>)"

definition increment_sequences :: "worker \<Rightarrow> worker" where
  "increment_sequences w =
     (let uses_sequence_session_no = any_pref_uses_session_sequence_no (prefs w);
          uses_sequence_letter = any_pref_uses_sequence_letter_value (prefs w);
          w1 = (if uses_sequence_session_no \<or> uses_sequence_letter
                then w\<lparr>sequences :=
                         increment uses_sequence_session_no uses_sequence_letter (sequences w)\<rparr>
                else w);
          w2 = (if any_pref_uses_stored_sequence_no (prefs w1)
                then w1\<lparr>prefs := (prefs w1)
                         \<lparr>prefs_stored_sequence_no := prefs_stored_sequence_no (prefs w1) + 1\<rparr>\<rparr>
                else w1)
      in w2\<lparr>downloads_today_tracker :=
              increment_downloads_today (downloads_today_tracker w2)\<rparr>)"

definition move_sidecars :: "RPDFile \<Rightarrow> worker \<Rightarrow> RPDFile \<times> worker" where
  "move_sidecars rpd_file w =
     (case (if temp_thm_full_name rpd_file \<noteq> [] then move_thm_file rpd_file w
            else (rpd_file, w)) of
        (rpd1, w1) \<Rightarrow>
          (case (if temp_audio_full_name rpd1 \<noteq> [] then move_audio_file rpd1 w1
                 else (rpd1, w1)) of
             (rpd2, w2) \<Rightarrow>
               if temp_xmp_full_name rpd2 \<noteq> [] then move_xmp_file rpd2 w2 else (rpd2, w2)))"

definition after_move ::
  "generatename \<Rightarrow> SyncRawJpegResult option \<Rightarrow> RPDFile \<Rightarrow> worker \<Rightarrow> RPDFile \<times> worker" where
  "after_move gn sync rpd_file w =
     (let w1 = (case sync of None \<Rightarrow> w | Some sync_result \<Rightarrow> record_download gn sync_result rpd_file w);
          w2 = (if (case sync of None \<Rightarrow> True | Some r \<Rightarrow> sequence_to_use r = None)
                then increment_sequences w1 else w1)
      in move_sidecars rpd_file w2)"

text \<open>
  The first lines of \<^verbatim>\<open>process_file\<close>: the file is prepared and, when RAW and JPEG
  are synchronised and the file is a photo, \<^verbatim>\<open>sync_raw_jpg\<close> runs. The first
  component is its result, \<open>None\<close> when it did not run.
\<close>

definition synchronize ::
  "RPDFile \<Rightarrow> worker \<Rightarrow> run_error + SyncRawJpegResult option \<times> RPDFile \<times> worker" where
  "synchronize rpd_file0 w0 =
     (let rpd_file = prepare_rpd_file w0 rpd_file0;
          synchronize_raw_jpg = (must_synchronize_raw_jpg (prefs w0) \<and> file_type rpd_file = photo)
      in if synchronize_raw_jpg
         then (case sync_raw_jpg rpd_file w0 of
                 Inl e \<Rightarrow> Inl e
               | Inr (r, rpd', w') \<Rightarrow> Inr (Some r, rpd', w'))
         else Inr (None, rpd_file, w0))"

text \<open>
  \<^verbatim>\<open>process_file\<close>: \<open>None\<close> when the loop of add_unique_identifier never returns,
  \<open>Inl\<close> for an exception, else \<open>move_succeeded\<close> with the file and the worker. The
  lines after a successful move read \<^verbatim>\<open>self.sequences\<close> and
  \<^verbatim>\<open>self.downloads_today_tracker\<close>; they are reached only after
  \<^verbatim>\<open>generate_names\<close> has read \<^verbatim>\<open>self.sequences\<close> itself.
\<close>

definition process_file ::
  "generatename \<Rightarrow> RPDFile \<Rightarrow> worker \<Rightarrow> (run_error + bool \<times> RPDFile \<times> worker) option" where
  "process_file gn rpd_file0 w0 =
     (case synchronize rpd_file0 w0 of
        Inl e \<Rightarrow> Some (Inl e)
      | Inr (sync, rpd1, w1) \<Rightarrow>
          if (case sync of None \<Rightarrow> False | Some r \<Rightarrow> failed r)
          then Some (Inr (False, rpd1, w1))
          else
            (case generate_names gn w1 rpd1 of
               Inl e \<Rightarrow> Some (Inl e)
             | Inr (False, rpd2) \<Rightarrow> Some (Inr (False, rpd2, w1))
             | Inr (True, rpd2) \<Rightarrow>
                 (case move_file rpd2 w1 of
                    None \<Rightarrow> None
                  | Some (False, rpd3, w3) \<Rightarrow> Some (Inr (False, rpd3, w3))
                  | Some (True, rpd3, w3) \<Rightarrow>
                      (case after_move gn sync rpd3 w3 of
                         (rpd4, w4) \<Rightarrow> Some (Inr (True, rpd4, w4))))))"

section \<open>The rename and move daemon: the loop of run\<close>

text \<open>
  What the loop receives in one round. With download_started come the preferences as
  \<^verbatim>\<open>self.prefs.sync()\<close> leaves them and the current date relative to the day start;
  with download_completed the current date; a file comes with its download count and
  whether its download succeeded.
\<close>

datatype received =
    download_started Preferences string
  | download_completed string
  | file_data RPDFile int bool

text \<open>
  RenameAndMoveFileResults, as sent to the sink: for a file, \<open>move_succeeded\<close>, the file
  and its download count; at the end of a download, the stored sequence number and the
  downloads today.
\<close>

datatype sent =
    file_results bool RPDFile int
  | sequence_results int "string \<times> int"

text \<open>\<^verbatim>\<open>process_renamed_file\<close> makes thumbnails and records the file in a database; it
  changes nothing that is modelled here.\<close>

definition download_started_round :: "Preferences \<Rightarrow> string \<Rightarrow> worker \<Rightarrow> worker" where
  "download_started_round synced today w =
     (let w1 = w\<lparr>prefs := synced\<rparr>;
          tr = \<lparr>day_start = prefs_day_start (prefs w1),
                downloads_today = prefs_downloads_today (prefs w1)\<rparr>;
          w2 = w1\<lparr>downloads_today_tracker := tr\<rparr>;
          w3 = w2\<lparr>sequences := new_Sequences (prefs_stored_sequence_no (prefs w2))\<rparr>;
          w4 = w3\<lparr>downloads_today_tracker :=
                     snd (get_or_reset_downloads_today today (downloads_today_tracker w3))\<rparr>
      in w4\<lparr>session_attributes := True\<rparr>)"

definition download_completed_round :: "string \<Rightarrow> worker \<Rightarrow> sent \<times> worker" where
  "download_completed_round today w =
     (let content = sequence_results (stored_sequence_no (sequences w))
                      (downloads_today (downloads_today_tracker w))
      in (content,
          w\<lparr>downloads_today_tracker :=
               snd (get_or_reset_downloads_today today (downloads_today_tracker w))\<rparr>))"

definition file_round ::
  "generatename \<Rightarrow> RPDFile \<Rightarrow> int \<Rightarrow> bool \<Rightarrow> worker \<Rightarrow> (run_error + sent \<times> worker) option" where
  "file_round gn rpd_file download_count download_succeeded w =
     (if download_succeeded then
        (case process_file gn rpd_file w of
           None \<Rightarrow> None
         | Some (Inl e) \<Rightarrow> Some (Inl e)
         | Some (Inr (False, rpd1, w1)) \<Rightarrow>
             Some (Inr (file_results False (rpd1\<lparr>metadata := None\<rparr>) download_count,
                        process_rename_failure rpd1 w1))
         | Some (Inr (True, rpd1, w1)) \<Rightarrow>
             Some (Inr (file_results True (rpd1\<lparr>metadata := None\<rparr>) download_count, w1)))
      else Some (Inr (file_results False (rpd_file\<lparr>metadata := None\<rparr>) download_count, w)))"

text \<open>
  One round of the loop and what it sends. The round of download_completed reads
  \<^verbatim>\<open>self.sequences\<close>, which raises \<^verbatim>\<open>AttributeError\<close> before the first
  download_started.
\<close>

definition run_round ::
  "generatename \<Rightarrow> received \<Rightarrow> worker \<Rightarrow> (run_error + sent list \<times> worker) option" where
  "run_round gn data w =
     (case data of
        download_started synced today \<Rightarrow>
          Some (Inr ([], download_started_round synced today w))
      | download_completed today \<Rightarrow>
          if session_attributes w
          then (case download_completed_round today w of
                  (content, w1) \<Rightarrow> Some (Inr ([content], w1)))
          else Some (Inl AttributeError)
      | file_data rpd_file download_count download_succeeded \<Rightarrow>
          (case file_round gn rpd_file download_count download_succeeded w of
             None \<Rightarrow> None
           | Some (Inl e) \<Rightarrow> Some (Inl e)
           | Some (Inr (content, w1)) \<Rightarrow> Some (Inr ([content], w1))))"

text \<open>The loop over the messages received so far, with everything sent.\<close>

fun run ::
  "generatename \<Rightarrow> received list \<Rightarrow> worker \<Rightarrow> (run_error + sent list \<times> worker) option" where
  "run gn [] w = Some (Inr ([], w))"
| "run gn (data # rest) w =
     (case run_round gn data w of
        None \<Rightarrow> None
      | Some (Inl e) \<Rightarrow> Some (Inl e)
      | Some (Inr (out, w1)) \<Rightarrow>
          (case run gn rest w1 of
             None \<Rightarrow> None
           | Some (Inl e) \<Rightarrow> Some (Inl e)
           | Some (Inr (outs, w2)) \<Rightarrow> Some (Inr (out @ outs, w2))))"

text \<open>
  The worker when \<^verbatim>\<open>run\<close> enters its loop: an empty pairing tracker from
  \<^verbatim>\<open>__init__\<close>, an empty dict of duplicate files, no sequences and no tracker yet (the
  two fields hold values that no round reads). Whether it has \<^verbatim>\<open>et_process\<close> is an
  argument.
\<close>

definition worker_at_start :: "Preferences \<Rightarrow> filesystem \<Rightarrow> bool \<Rightarrow> worker" where
  "worker_at_start p f has_et_process =
     \<lparr>prefs = p, sync_raw_jpeg = Map.empty, duplicate_files = Map.empty,
      sequences = new_Sequences 0,
      downloads_today_tracker = \<lparr>day_start = [], downloads_today = ([], 0)\<rparr>,
      session_attributes = False, et_process = has_et_process, fs = f, logged_errors = []\<rparr>"

text \<open>
  The sequence values of the worker: the session sequence number, the sequence letter
  index, the stored sequence number of the sequences, the stored sequence number of the
  preferences and the count of downloads today.
\<close>

definition sequence_values :: "worker \<Rightarrow> int \<times> int \<times> int \<times> int \<times> int" where
  "sequence_values w =
     (session_sequence_no (sequences w), sequence_letter (sequences w),
      stored_sequence_no (sequences w), prefs_stored_sequence_no (prefs w),
      snd (downloads_today (downloads_today_tracker w)))"

section \<open>Concrete values for evaluation\<close>

text \<open>
  Name generators that join the strings of the pref list; the file name generators add
  the extension of the source name. The matched sequences are the session sequence
  number.
\<close>

definition gn_example :: generatename where
  "gn_example =
     \<lparr>PhotoSubfolder = (\<lambda>pl r. (Some (concat pl), [])),
      VideoSubfolder = (\<lambda>pl r. (Some (concat pl), [])),
      PhotoName = (\<lambda>pl r sq tr. (Some (concat pl @ snd (splitext (name r))), [])),
      VideoName = (\<lambda>pl r sq tr. (Some (concat pl @ snd (splitext (name r))), [])),
      create_matched_sequences = (\<lambda>sq tr. session_sequence_no sq)\<rparr>"

definition prefs_example :: Preferences where
  "prefs_example =
     \<lparr>conflict_resolution = add_identifier,
      must_synchronize_raw_jpg = False,
      any_pref_uses_session_sequence_no = True,
      any_pref_uses_sequence_letter_value = False,
      any_pref_uses_stored_sequence_no = True,
      prefs_stored_sequence_no = 5,
      prefs_downloads_today = (''2024-01-02'', 3),
      prefs_day_start = ''03:00'',
      prefs_strip_characters = False,
      photo_download_folder = ''/dest'',
      video_download_folder = ''/video'',
      photo_subfolder = [''2024''],
      video_subfolder = [''2024''],
      photo_rename = [''IMG''],
      video_rename = [''MOV'']\<rparr>"

text \<open>
  Temporary files that wait to be moved; nothing fails but the rename of the thumbnail
  \<open>/tmp/a.THM\<close>, which raises \<^verbatim>\<open>EACCES\<close> (13).
\<close>

definition fs_example :: filesystem where
  "fs_example =
     \<lparr>existing = [''/tmp/a.JPG'', ''/tmp/b.JPG'', ''/tmp/c.JPG'', ''/tmp/a.CR2'', ''/tmp/a.THM''],
      directories = [],
      makedirs_raises = (\<lambda>p. None),
      rename_raises = (\<lambda>src dst. if src = ''/tmp/a.THM'' then Some 13 else None),
      remove_raises = (\<lambda>p. None),
      calls = []\<rparr>"

definition photo_example :: "string \<Rightarrow> string \<Rightarrow> RPDFile" where
  "photo_example source_name temp_name =
     \<lparr>name = source_name, file_type = photo, metadata = None,
      readable_metadata = Some \<lparr>md_date_time = 1700000000, md_sub_seconds = ''42''\<rparr>,
      status = download_pending, problem = [], strip_characters = False,
      download_folder = [], subfolder_pref_list = [], name_pref_list = [],
      download_subfolder = [], download_name = [], download_path = [],
      download_full_file_name = [], download_full_base_name = [],
      temp_full_file_name = temp_name,
      temp_thm_full_name = [], temp_audio_full_name = [], temp_xmp_full_name = [],
      thm_extension = [], audio_extension = [], xmp_extension = [],
      download_thm_full_name = [], download_audio_full_name = [],
      download_xmp_full_name = []\<rparr>"

text \<open>The worker after the first download_started, on the file system above.\<close>

definition worker_example :: worker where
  "worker_example =
     download_started_round prefs_example ''2024-01-02''
       (worker_at_start prefs_example fs_example False)"

text \<open>
  A worker whose destination folder already holds \<open>IMG.JPG\<close> and \<open>IMG_1.JPG\<close>, and a
  file whose generated name is \<open>IMG.JPG\<close>.
\<close>

definition worker_taken :: worker where
  "worker_taken =
     worker_example
       \<lparr>fs := fs_example
          \<lparr>existing := [''/dest/2024/IMG.JPG'', ''/dest/2024/IMG_1.JPG'', ''/tmp/b.JPG''],
           directories := [''/dest/2024'']\<rparr>\<rparr>"

definition photo_named :: RPDFile where
  "photo_named =
     (photo_example ''b.JPG'' ''/tmp/b.JPG'')
       \<lparr>download_folder := ''/dest'', download_subfolder := ''2024'',
        download_name := ''IMG.JPG'', download_path := ''/dest/2024'',
        download_full_file_name := ''/dest/2024/IMG.JPG'',
        download_full_base_name := ''/dest/2024/IMG''\<rparr>"

text \<open>The same worker with preferences that generate an empty subfolder.\<close>

definition worker_no_subfolder :: worker where
  "worker_no_subfolder = worker_example\<lparr>prefs := prefs_example\<lparr>photo_subfolder := []\<rparr>\<rparr>"

text \<open>A photo that comes with a thumbnail file.\<close>

definition photo_with_thm :: RPDFile where
  "photo_with_thm =
     (photo_example ''a.JPG'' ''/tmp/a.JPG'')\<lparr>temp_thm_full_name := ''/tmp/a.THM''\<rparr>"

text \<open>What a result sent for a file reports.\<close>

fun reported_moved :: "sent \<Rightarrow> bool" where
  "reported_moved (file_results move_succeeded rpd_file download_count) = move_succeeded"
| "reported_moved (sequence_results stored today) = False"

fun reported_status :: "sent \<Rightarrow> DownloadStatus" where
  "reported_status (file_results move_succeeded rpd_file download_count) = status rpd_file"
| "reported_status (sequence_results stored today) = download_pending"

fun reported_name :: "sent \<Rightarrow> string" where
  "reported_name (file_results move_succeeded rpd_file download_count) = download_name rpd_file"
| "reported_name (sequence_results stored today) = []"

text \<open>
  A download of three photos that all generate the name \<open>IMG.JPG\<close>, and a download of
  one photo from its start to its end.
\<close>

definition same_name_download :: "received list" where
  "same_name_download =
     [download_started prefs_example ''2024-01-02'',
      file_data (photo_example ''a.JPG'' ''/tmp/a.JPG'') 1 True,
      file_data (photo_example ''b.JPG'' ''/tmp/b.JPG'') 2 True,
      file_data (photo_example ''c.JPG'' ''/tmp/c.JPG'') 3 True]"

definition one_photo_download :: "received list" where
  "one_photo_download =
     [download_started prefs_example ''2024-01-02'',
      file_data (photo_example ''a.JPG'' ''/tmp/a.JPG'') 1 True,
      download_completed ''2024-01-02'']"

text \<open>
  Two downloads in a row: the first places \<open>a.JPG\<close> and adds an identifier to
  \<open>b.JPG\<close>, which generates the same name; the second has only started.
\<close>

definition two_downloads :: "received list" where
  "two_downloads =
     [download_started prefs_example ''2024-01-02'',
      file_data (photo_example ''a.JPG'' ''/tmp/a.JPG'') 1 True,
      file_data (photo_example ''b.JPG'' ''/tmp/b.JPG'') 2 True,
      download_completed ''2024-01-02'',
      download_started prefs_example ''2024-01-03'']"

text \<open>A file system on which every rename raises \<^verbatim>\<open>EEXIST\<close>.\<close>

definition worker_rename_eexist :: worker where
  "worker_rename_eexist =
     worker_taken\<lparr>fs := (fs worker_taken)\<lparr>rename_raises := (\<lambda>src dst. Some 17)\<rparr>\<rparr>"

text \<open>
  Preferences that synchronise RAW and JPEG, and a download of the two files of one
  shot: \<open>a.CR2\<close> and \<open>a.JPG\<close>, with the same capture time and sub-seconds.
\<close>

definition prefs_sync :: Preferences where
  "prefs_sync = prefs_example\<lparr>must_synchronize_raw_jpg := True\<rparr>"

definition raw_jpeg_download :: "received list" where
  "raw_jpeg_download =
     [download_started prefs_sync ''2024-01-02'',
      file_data (photo_example ''a.CR2'' ''/tmp/a.CR2'') 1 True,
      file_data (photo_example ''a.JPG'' ''/tmp/a.JPG'') 2 True]"

section \<open>Properties of the pairing tracker\<close>

text \<open>
  C3. A query with a base name, extension, capture time and sub-seconds answers:
  already downloaded, with the recorded sequence number, exactly when the base name has an
  entry with that capture time and those sub-seconds whose extensions contain the queried
  one; matching pair, with the recorded sequence number, exactly when the entry has that
  capture time and those sub-seconds and the extension is not among its extensions; time
  mismatch, with no sequence number, exactly when the entry's capture time or sub-seconds
  differ; no match, with no sequence number, exactly when the base name has no entry.
\<close>

theorem matching_pair_cases:
  "(matching_pair photos base extension date_time sub_seconds = (error_already_downloaded, Some q)
      \<longleftrightarrow> (\<exists>exts. photos base = Some (exts, date_time, sub_seconds, q) \<and> extension \<in> set exts))
   \<and> (matching_pair photos base extension date_time sub_seconds = (matching_pair_status, Some q)
      \<longleftrightarrow> (\<exists>exts. photos base = Some (exts, date_time, sub_seconds, q) \<and> extension \<notin> set exts))
   \<and> (matching_pair photos base extension date_time sub_seconds = (error_datetime_mismatch, None)
      \<longleftrightarrow> (\<exists>exts dt ss q'. photos base = Some (exts, dt, ss, q')
            \<and> \<not> (dt = date_time \<and> ss = sub_seconds)))
   \<and> (matching_pair photos base extension date_time sub_seconds = (no_match, None)
      \<longleftrightarrow> photos base = None)
   \<and> (fst (matching_pair photos base extension date_time sub_seconds) = error_already_downloaded
      \<longleftrightarrow> (\<exists>exts q'. photos base = Some (exts, date_time, sub_seconds, q') \<and> extension \<in> set exts))
   \<and> (fst (matching_pair photos base extension date_time sub_seconds) = matching_pair_status
      \<longleftrightarrow> (\<exists>exts q'. photos base = Some (exts, date_time, sub_seconds, q') \<and> extension \<notin> set exts))
   \<and> (fst (matching_pair photos base extension date_time sub_seconds) = error_datetime_mismatch
      \<longleftrightarrow> (\<exists>exts dt ss q'. photos base = Some (exts, dt, ss, q')
            \<and> \<not> (dt = date_time \<and> ss = sub_seconds)))
   \<and> (fst (matching_pair photos base extension date_time sub_seconds) = no_match
      \<longleftrightarrow> photos base = None)
   \<and> (snd (matching_pair photos base extension date_time sub_seconds) = None
      \<longleftrightarrow> fst (matching_pair photos base extension date_time sub_seconds)
            \<in> {error_datetime_mismatch, no_match})"
  by (auto simp: matching_pair_def split: option.splits prod.splits)

theorem matching_pair_cases_witness:
  "matching_pair [''IMG_0001'' \<mapsto> ([''.CR2''], 1700000000, ''42'', 7::int)]
       ''IMG_0001'' ''.JPG'' 1700000000 ''42'' = (matching_pair_status, Some 7)
   \<and> matching_pair [''IMG_0001'' \<mapsto> ([''.CR2''], 1700000000, ''42'', 7::int)]
       ''IMG_0001'' ''.CR2'' 1700000000 ''42'' = (error_already_downloaded, Some 7)
   \<and> matching_pair [''IMG_0001'' \<mapsto> ([''.CR2''], 1700000000, ''42'', 7::int)]
       ''IMG_0001'' ''.JPG'' 1700000000 ''43'' = (error_datetime_mismatch, None)
   \<and> matching_pair [''IMG_0001'' \<mapsto> ([''.CR2''], 1700000000, ''42'', 7::int)]
       ''IMG_0002'' ''.JPG'' 1700000000 ''42'' = (no_match, None)"
  using matching_pair_cases
    [of "[''IMG_0001'' \<mapsto> ([''.CR2''], 1700000000, ''42'', 7::int)]"
        "''IMG_0001''" "''.JPG''" 1700000000 "''42''" 7]
    matching_pair_cases
    [of "[''IMG_0001'' \<mapsto> ([''.CR2''], 1700000000, ''42'', 7::int)]"
        "''IMG_0001''" "''.CR2''" 1700000000 "''42''" 7]
    matching_pair_cases
    [of "[''IMG_0001'' \<mapsto> ([''.CR2''], 1700000000, ''42'', 7::int)]"
        "''IMG_0001''" "''.JPG''" 1700000000 "''43''" 7]
    matching_pair_cases
    [of "[''IMG_0001'' \<mapsto> ([''.CR2''], 1700000000, ''42'', 7::int)]"
        "''IMG_0002''" "''.JPG''" 1700000000 "''42''" 7]
  by simp

section \<open>Decimal strings are distinct for distinct numbers\<close>

lemma of_char_digit_char: "d < 10 \<Longrightarrow> (of_char (digit_char d) :: nat) = 48 + d"
  by (simp add: digit_char_def)

lemma digit_char_inj: "d < 10 \<Longrightarrow> e < 10 \<Longrightarrow> digit_char d = digit_char e \<Longrightarrow> d = e"
  by (metis of_char_digit_char add_left_cancel)

lemma digit_char_not_minus: "d < 10 \<Longrightarrow> digit_char d \<noteq> CHR ''-''"
proof
  assume "d < 10" and "digit_char d = CHR ''-''"
  then have "(48 + d :: nat) = of_char (CHR ''-'')"
    using of_char_digit_char by metis
  then show False by simp
qed

lemma str_nat_not_Nil: "str_nat n \<noteq> []"
  by (subst str_nat.simps) simp

lemma str_nat_hd_not_minus: "hd (str_nat n) \<noteq> CHR ''-''"
proof (induction n rule: str_nat.induct)
  case (1 n)
  show ?case
  proof (cases "n < 10")
    case True
    then show ?thesis
      by (subst str_nat.simps) (simp add: digit_char_not_minus)
  next
    case False
    then have "hd (str_nat n) = hd (str_nat (n div 10))"
      by (subst str_nat.simps) (simp add: str_nat_not_Nil)
    then show ?thesis using 1 False by simp
  qed
qed

lemma str_nat_inj: "str_nat n = str_nat m \<Longrightarrow> n = m"
proof (induction n arbitrary: m rule: str_nat.induct)
  case (1 n)
  show ?case
  proof (cases "n < 10")
    case n: True
    show ?thesis
    proof (cases "m < 10")
      case True
      with n "1.prems" show ?thesis
        by (simp add: str_nat.simps [of n] str_nat.simps [of m] digit_char_inj)
    next
      case False
      then have "length (str_nat m) \<ge> 2"
        using str_nat_not_Nil [of "m div 10"]
        by (subst str_nat.simps) (cases "str_nat (m div 10)"; simp)
      moreover have "length (str_nat n) = 1"
        using n by (subst str_nat.simps) simp
      ultimately show ?thesis using "1.prems" by simp
    qed
  next
    case n: False
    show ?thesis
    proof (cases "m < 10")
      case True
      have "length (str_nat n) \<ge> 2"
        using n str_nat_not_Nil [of "n div 10"]
        by (subst str_nat.simps) (cases "str_nat (n div 10)"; simp)
      moreover have "length (str_nat m) = 1"
        using True by (subst str_nat.simps) simp
      ultimately show ?thesis using "1.prems" by simp
    next
      case False
      have "str_nat (n div 10) @ [digit_char (n mod 10)]
            = str_nat (m div 10) @ [digit_char (m mod 10)]"
        using "1.prems" n False by (simp add: str_nat.simps [of n] str_nat.simps [of m])
      then have a: "str_nat (n div 10) = str_nat (m div 10)"
        and b: "digit_char (n mod 10) = digit_char (m mod 10)"
        by simp_all
      have "n div 10 = m div 10"
        using "1.IH" [OF n a] .
      moreover have "n mod 10 = m mod 10"
        using b by (simp add: digit_char_inj)
      ultimately show ?thesis
        by (metis div_mult_mod_eq)
    qed
  qed
qed

lemma str_int_inj: "str_int i = str_int j \<Longrightarrow> i = j"
proof (cases "i < 0"; cases "j < 0")
  assume "str_int i = str_int j" "i < 0" "j < 0"
  then have "nat (- i) = nat (- j)"
    by (simp add: str_int_def str_nat_inj)
  with \<open>i < 0\<close> \<open>j < 0\<close> show ?thesis by simp
next
  assume e: "str_int i = str_int j" and "i < 0" "\<not> j < 0"
  then have "CHR ''-'' # str_nat (nat (- i)) = str_nat (nat j)"
    by (simp add: str_int_def)
  then have "hd (str_nat (nat j)) = CHR ''-''"
    by (metis list.sel(1))
  then show ?thesis using str_nat_hd_not_minus by blast
next
  assume e: "str_int i = str_int j" and "\<not> i < 0" "j < 0"
  then have "str_nat (nat i) = CHR ''-'' # str_nat (nat (- j))"
    by (simp add: str_int_def)
  then have "hd (str_nat (nat i)) = CHR ''-''"
    by (metis list.sel(1))
  then show ?thesis using str_nat_hd_not_minus by blast
next
  assume "str_int i = str_int j" "\<not> i < 0" "\<not> j < 0"
  then have "nat i = nat j"
    by (simp add: str_int_def str_nat_inj)
  with \<open>\<not> i < 0\<close> \<open>\<not> j < 0\<close> show ?thesis by simp
qed

text \<open>The candidate name with identifier \<open>n\<close>, as the loop of add_unique_identifier builds it.\<close>

lemma path_join_append:
  "\<exists>pre. \<forall>t. path_join a ((s @ ''_'') @ t) = pre @ (s @ ''_'') @ t"
proof (cases "s \<noteq> [] \<and> hd s = CHR ''/''")
  case True
  then have "\<forall>t. path_join a ((s @ ''_'') @ t) = [] @ (s @ ''_'') @ t"
    by (auto simp: path_join_def)
  then show ?thesis by blast
next
  case False
  then have h: "\<And>t. hd ((s @ ''_'') @ t) \<noteq> CHR ''/''"
    by (cases s) auto
  show ?thesis
  proof (cases "a = [] \<or> last a = CHR ''/''")
    case True
    have "path_join a ((s @ ''_'') @ t) = a @ (s @ ''_'') @ t" for t
      using h [of t] True by (simp add: path_join_def)
    then show ?thesis by blast
  next
    case False
    have "path_join a ((s @ ''_'') @ t) = (a @ ''/'') @ (s @ ''_'') @ t" for t
      using h [of t] False by (simp add: path_join_def)
    then show ?thesis by blast
  qed
qed

lemma candidate_inj:
  assumes "path_join a (s @ ''_'' @ str_int i @ e) = path_join a (s @ ''_'' @ str_int j @ e)"
  shows "i = j"
proof -
  obtain pre where p: "\<And>t. path_join a ((s @ ''_'') @ t) = pre @ (s @ ''_'') @ t"
    using path_join_append by blast
  have "path_join a ((s @ ''_'') @ (str_int i @ e)) = path_join a ((s @ ''_'') @ (str_int j @ e))"
    using assms by simp
  then have "str_int i @ e = str_int j @ e"
    unfolding p by simp
  then show ?thesis
    using str_int_inj by simp
qed

section \<open>The loop of add_unique_identifier returns\<close>

lemma os_rename_existing_unchanged:
  "os_rename f src dst = (Some e, f1) \<Longrightarrow>
   existing f1 = existing f \<and> rename_raises f1 = rename_raises f
   \<and> calls f1 = calls f @ [Rename src dst]"
  by (auto simp: os_rename_def Let_def split: option.splits if_splits)

lemma os_rename_error_not_EEXIST:
  assumes "rename_consistent f" and "dst \<notin> set (existing f)"
    and "os_rename f src dst = (Some e, f1)"
  shows "e \<noteq> EEXIST"
proof
  assume "e = EEXIST"
  show False
  proof (cases "rename_raises f src dst")
    case None
    then have "e = ENOENT"
      using assms(3) by (auto simp: os_rename_def Let_def split: if_splits)
    with \<open>e = EEXIST\<close> show False by (simp add: EEXIST_def ENOENT_def)
  next
    case (Some e')
    then have "e' = e"
      using assms(3) by (auto simp: os_rename_def Let_def)
    with Some \<open>e = EEXIST\<close> assms(1,2) show False
      by (auto simp: rename_consistent_def)
  qed
qed

lemma os_rename_success:
  "os_rename f src dst = (None, f1) \<Longrightarrow>
   src \<in> set (existing f) \<and> dst \<in> set (existing f1)
   \<and> calls f1 = calls f @ [Rename src dst]"
  by (auto simp: os_rename_def Let_def split: option.splits if_splits)

lemma candidates_finite:
  "finite {j. c < j \<and> path_join a (s @ ''_'' @ str_int j @ e) \<in> set ex}"
proof -
  let ?cand = "\<lambda>j. path_join a (s @ ''_'' @ str_int j @ e)"
  have "inj ?cand"
    by (rule injI) (rule candidate_inj)
  then have "finite (?cand -` set ex)"
    by (simp add: finite_vimageI)
  moreover have "{j. c < j \<and> ?cand j \<in> set ex} \<subseteq> ?cand -` set ex"
    by auto
  ultimately show ?thesis
    by (rule rev_finite_subset)
qed

lemma candidates_card:
  "card {j. c < j \<and> path_join a (s @ ''_'' @ str_int j @ e) \<in> set ex} \<le> length ex"
proof -
  let ?cand = "\<lambda>j. path_join a (s @ ''_'' @ str_int j @ e)"
  let ?S = "{j. c < j \<and> ?cand j \<in> set ex}"
  have "inj_on ?cand ?S"
    by (rule inj_onI) (rule candidate_inj)
  then have "card ?S = card (?cand ` ?S)"
    by (simp add: card_image)
  also have "\<dots> \<le> card (set ex)"
    by (rule card_mono) auto
  also have "\<dots> \<le> length ex"
    by (rule card_length)
  finally show ?thesis .
qed

lemma add_unique_identifier_loop_returns:
  assumes "rename_consistent (fs w)"
  shows "\<exists>ok rpd' w'.
     add_unique_identifier_loop (s, e) full_name rpd_file w = Some (ok, rpd', w')
     \<and> duplicate_files_get w full_name < duplicate_files_get w' full_name
     \<and> duplicate_files_get w' full_name
         \<le> duplicate_files_get w full_name + 1
            + int (card {j. duplicate_files_get w full_name < j
                        \<and> path_join (download_path rpd_file) (s @ ''_'' @ str_int j @ e)
                            \<in> set (existing (fs w))})
     \<and> download_name rpd' = s @ ''_'' @ str_int (duplicate_files_get w' full_name) @ e
     \<and> download_full_file_name rpd' = path_join (download_path rpd_file) (download_name rpd')
     \<and> download_full_file_name rpd' \<notin> set (existing (fs w))
     \<and> (ok \<longrightarrow> status rpd' = downloaded_with_warning
             \<and> download_full_file_name rpd' \<in> set (existing (fs w'))
             \<and> last (calls (fs w'))
                 = Rename (temp_full_file_name rpd_file) (download_full_file_name rpd'))
     \<and> (\<not> ok \<longrightarrow> status rpd' = download_failed
             \<and> existing (fs w') = existing (fs w)
             \<and> (\<exists>err. err \<noteq> EEXIST
                   \<and> fst (os_rename (fs w) (temp_full_file_name rpd_file)
                            (download_full_file_name rpd')) = Some err))"
  using assms
proof (induction "card {j. duplicate_files_get w full_name < j
                        \<and> path_join (download_path rpd_file) (s @ ''_'' @ str_int j @ e)
                            \<in> set (existing (fs w))}"
       arbitrary: rpd_file w rule: less_induct)
  case less
  let ?cand = "\<lambda>j. path_join (download_path rpd_file) (s @ ''_'' @ str_int j @ e)"
  let ?c = "duplicate_files_get w full_name"
  let ?S = "{j. ?c < j \<and> ?cand j \<in> set (existing (fs w))}"
  define n where "n = ?c + 1"
  define w1 where "w1 = w\<lparr>duplicate_files := (duplicate_files w)(full_name \<mapsto> n)\<rparr>"
  define rpd2 where
    "rpd2 = rpd_file\<lparr>download_name := s @ ''_'' @ str_int n @ e,
                      download_full_file_name := ?cand n\<rparr>"
  have w1: "fs w1 = fs w" "duplicate_files_get w1 full_name = n"
    by (simp_all add: w1_def duplicate_files_get_def)
  have r2: "download_path rpd2 = download_path rpd_file"
    "temp_full_file_name rpd2 = temp_full_file_name rpd_file"
    "download_name rpd2 = s @ ''_'' @ str_int n @ e"
    "download_full_file_name rpd2 = ?cand n"
    by (simp_all add: rpd2_def)
  have unfold: "add_unique_identifier_loop (s, e) full_name rpd_file w =
     (if os_path_exists (fs w1) (?cand n)
      then add_unique_identifier_loop (s, e) full_name rpd2 w1
      else (case os_rename (fs w1) (temp_full_file_name rpd2) (?cand n) of
              (None, f1) \<Rightarrow>
                Some (True, notify_file_already_exists (Some (''_'' @ str_int n)) rpd2,
                      w1\<lparr>fs := f1\<rparr>)
            | (Some err, f1) \<Rightarrow>
                if err \<noteq> EEXIST
                then (case notify_download_failure_file_error rpd2 (os_strerror err)
                             (w1\<lparr>fs := f1\<rparr>) of
                        (rpd3, w3) \<Rightarrow> Some (False, rpd3, w3))
                else add_unique_identifier_loop (s, e) full_name rpd2 (w1\<lparr>fs := f1\<rparr>)))"
    by (subst add_unique_identifier_loop.simps)
       (simp add: Let_def n_def w1_def rpd2_def
             cong: if_cong prod.case_cong option.case_cong)
  show ?case
  proof (cases "?cand n \<in> set (existing (fs w))")
    case True
    let ?S1 = "{j. n < j \<and> ?cand j \<in> set (existing (fs w))}"
    have fin: "finite ?S" by (rule candidates_finite)
    have "n \<in> ?S" using True by (simp add: n_def)
    moreover have "n \<notin> ?S1" by simp
    moreover have "?S1 \<subseteq> ?S" by (auto simp: n_def)
    ultimately have "?S1 \<subset> ?S" by blast
    then have lt: "card ?S1 < card ?S"
      using fin by (rule psubset_card_mono [rotated])
    have S1: "?S1 = {j. duplicate_files_get w1 full_name < j
                 \<and> path_join (download_path rpd2) (s @ ''_'' @ str_int j @ e)
                     \<in> set (existing (fs w1))}"
      by (simp add: w1 r2)
    have cons: "rename_consistent (fs w1)"
      using less.prems by (simp add: w1)
    obtain ok rpd' w' where
      res: "add_unique_identifier_loop (s, e) full_name rpd2 w1 = Some (ok, rpd', w')"
      and props: "n < duplicate_files_get w' full_name"
        "duplicate_files_get w' full_name \<le> n + 1 + int (card ?S1)"
        "download_name rpd' = s @ ''_'' @ str_int (duplicate_files_get w' full_name) @ e"
        "download_full_file_name rpd' = path_join (download_path rpd_file) (download_name rpd')"
        "download_full_file_name rpd' \<notin> set (existing (fs w))"
        "ok \<longrightarrow> status rpd' = downloaded_with_warning
             \<and> download_full_file_name rpd' \<in> set (existing (fs w'))
             \<and> last (calls (fs w'))
                 = Rename (temp_full_file_name rpd_file) (download_full_file_name rpd')"
        "\<not> ok \<longrightarrow> status rpd' = download_failed
             \<and> existing (fs w') = existing (fs w)
             \<and> (\<exists>err. err \<noteq> EEXIST
                   \<and> fst (os_rename (fs w) (temp_full_file_name rpd_file)
                            (download_full_file_name rpd')) = Some err)"
      using less.hyps [of w1 rpd2, unfolded S1 [symmetric], OF lt cons]
      unfolding w1 r2 S1 [symmetric] by blast
    have "add_unique_identifier_loop (s, e) full_name rpd_file w = Some (ok, rpd', w')"
      using unfold True res by (simp add: os_path_exists_def w1)
    moreover have "?c < duplicate_files_get w' full_name"
      using props(1) by (simp add: n_def)
    moreover have "duplicate_files_get w' full_name \<le> ?c + 1 + int (card ?S)"
      using props(2) lt by (simp add: n_def)
    ultimately show ?thesis
      using props(3-7) by blast
  next
    case False
    obtain r f1 where ren: "os_rename (fs w) (temp_full_file_name rpd_file) (?cand n) = (r, f1)"
      by (cases "os_rename (fs w) (temp_full_file_name rpd_file) (?cand n)")
    show ?thesis
    proof (cases r)
      case None
      let ?rpd' = "notify_file_already_exists (Some (''_'' @ str_int n)) rpd2"
      let ?w' = "w1\<lparr>fs := f1\<rparr>"
      have "add_unique_identifier_loop (s, e) full_name rpd_file w = Some (True, ?rpd', ?w')"
        using unfold False ren None by (simp add: os_path_exists_def w1 r2)
      moreover have "duplicate_files_get ?w' full_name = n"
        by (simp add: w1_def duplicate_files_get_def)
      moreover have "download_name ?rpd' = s @ ''_'' @ str_int n @ e"
        "download_full_file_name ?rpd' = ?cand n" "status ?rpd' = downloaded_with_warning"
        by (simp_all add: notify_file_already_exists_def add_problem_def rpd2_def)
      moreover have "?cand n \<in> set (existing f1)"
        "last (calls f1) = Rename (temp_full_file_name rpd_file) (?cand n)"
        using os_rename_success [OF ren [unfolded None]] by simp_all
      ultimately show ?thesis
        using False by (intro exI [of _ True] exI [of _ ?rpd'] exI [of _ ?w']) (simp add: n_def)
    next
      case (Some err)
      have ne: "err \<noteq> EEXIST"
        using os_rename_error_not_EEXIST [OF less.prems False ren [unfolded Some]] .
      let ?rpd' = "(add_problem DOWNLOAD_COPYING_ERROR rpd2)\<lparr>status := download_failed\<rparr>"
      let ?w' = "logging_error (''Failed to create file '' @ download_full_file_name rpd2
                                  @ '': '' @ os_strerror err)
                   (w1\<lparr>fs := f1\<rparr>)"
      have "add_unique_identifier_loop (s, e) full_name rpd_file w = Some (False, ?rpd', ?w')"
        using unfold False ren Some ne
        by (simp add: os_path_exists_def w1 r2 notify_download_failure_file_error_def)
      moreover have "duplicate_files_get ?w' full_name = n"
        by (simp add: w1_def duplicate_files_get_def logging_error_def)
      moreover have "download_name ?rpd' = s @ ''_'' @ str_int n @ e"
        "download_full_file_name ?rpd' = ?cand n" "status ?rpd' = download_failed"
        by (simp_all add: add_problem_def rpd2_def)
      moreover have "existing (fs ?w') = existing (fs w)"
        using os_rename_existing_unchanged [OF ren [unfolded Some]]
        by (simp add: logging_error_def)
      moreover have "fst (os_rename (fs w) (temp_full_file_name rpd_file) (?cand n)) = Some err"
        using ren Some by simp
      moreover have "?c < n" "n \<le> ?c + 1 + int (card ?S)"
        by (simp_all add: n_def)
      ultimately show ?thesis
        using False ne
        by (intro exI [of _ False] exI [of _ ?rpd'] exI [of _ ?w']) auto
    qed
  qed
qed
section \<open>Evaluation of the concrete values\<close>

lemma str_int_small [simp]: "str_int 1 = ''1''" "str_int 2 = ''2''" "str_int 3 = ''3''"
  by code_simp+

lemma move_associate_file_eval:
  "move_associate_file extension full_base_name temp_associate_file f =
     (case os_rename f temp_associate_file (full_base_name @ extension) of
        (None, f1) \<Rightarrow> ((True, full_base_name @ extension), f1)
      | (Some e, f1) \<Rightarrow> ((False, full_base_name @ extension), f1))"
  by (simp add: move_associate_file_def Let_def)

lemma move_xmp_file_eval:
  "move_xmp_file rpd_file w =
     (case os_rename (fs w) (temp_xmp_full_name rpd_file)
             (download_full_base_name rpd_file @ xmp_extension rpd_file) of
        (None, f1) \<Rightarrow>
          (rpd_file\<lparr>download_xmp_full_name :=
                      download_full_base_name rpd_file @ xmp_extension rpd_file\<rparr>,
           w\<lparr>fs := f1\<rparr>)
      | (Some e, f1) \<Rightarrow>
          (rpd_file,
           logging_error (''Failed to move XMP sidecar file ''
                            @ download_full_base_name rpd_file @ xmp_extension rpd_file)
             (w\<lparr>fs := f1\<rparr>)))"
  by (simp add: move_xmp_file_def Let_def)

lemma move_thm_file_eval:
  "move_thm_file rpd_file w =
     (case move_associate_file
             (if thm_extension rpd_file \<noteq> [] then thm_extension rpd_file else ''.THM'')
             (download_full_base_name rpd_file) (temp_thm_full_name rpd_file) (fs w) of
        ((result, full_name), f1) \<Rightarrow>
          if \<not> result
          then (rpd_file\<lparr>download_thm_full_name := full_name\<rparr>,
                logging_error (''Failed to move video THM file '' @ full_name) (w\<lparr>fs := f1\<rparr>))
          else (rpd_file\<lparr>download_thm_full_name := full_name\<rparr>, w\<lparr>fs := f1\<rparr>))"
  by (simp add: move_thm_file_def Let_def)

lemma move_audio_file_eval:
  "move_audio_file rpd_file w =
     (case move_associate_file
             (if audio_extension rpd_file \<noteq> [] then audio_extension rpd_file else ''.WAV'')
             (download_full_base_name rpd_file) (temp_audio_full_name rpd_file) (fs w) of
        ((result, full_name), f1) \<Rightarrow>
          if \<not> result
          then (rpd_file\<lparr>download_audio_full_name := full_name\<rparr>,
                logging_error (''Failed to move file's associated audio file '' @ full_name)
                  (w\<lparr>fs := f1\<rparr>))
          else (rpd_file\<lparr>download_audio_full_name := full_name\<rparr>, w\<lparr>fs := f1\<rparr>))"
  by (simp add: move_audio_file_def Let_def)

lemmas evaluation =
  process_file_def synchronize_def prepare_rpd_file_def sync_raw_jpg_def
  photo_example_def prefs_example_def fs_example_def gn_example_def
  worker_example_def worker_taken_def photo_named_def worker_no_subfolder_def
  photo_with_thm_def same_name_download_def one_photo_download_def
  two_downloads_def worker_rename_eexist_def prefs_sync_def raw_jpeg_download_def
  worker_at_start_def download_started_round_def download_completed_round_def
  file_round_def run_round_def process_rename_failure_def
  generate_names_def generate_subfolder_def generate_name_def generate_name_with_def
  load_metadata_def check_for_fatal_name_generation_errors_def name_generation_area_def
  has_problem_def add_problem_def move_file_def path_join_def splitext_def
  os_path_isdir_def os_path_exists_def os_makedirs_def os_rename_def os_remove_def
  after_move_def record_download_def add_download_def matching_pair_def
  increment_sequences_def increment_def increment_downloads_today_def
  set_matched_sequence_value_def same_name_different_exif_def
  move_sidecars_def move_thm_file_eval move_audio_file_eval move_xmp_file_eval
  move_associate_file_eval logging_error_def
  get_or_reset_downloads_today_def new_Sequences_def
  download_file_exists_def notify_file_already_exists_def
  notify_download_failure_file_error_def add_unique_identifier_def
  add_unique_identifier_loop.simps duplicate_files_get_def
  make_download_path_def os_strerror_def
  EEXIST_def ENOENT_def

section \<open>Termination of the rename loop\<close>

lemma add_unique_identifier_loop_needs_other_error:
  assumes "add_unique_identifier_loop nm full_name rpd_file w = Some y"
  shows "\<not> (\<forall>src dst. rename_raises (fs w) src dst = Some EEXIST)"
  using assms
proof (induction rule: add_unique_identifier_loop.raw_induct
                         [rotated 1, consumes 1, case_names step])
  case (step loop nm full_name rpd_file w y)
  let ?n = "duplicate_files_get w full_name + 1"
  let ?w1 = "w\<lparr>duplicate_files := (duplicate_files w)(full_name \<mapsto> ?n)\<rparr>"
  let ?rpd1 = "rpd_file\<lparr>download_name := fst nm @ (''_'' @ str_int ?n) @ snd nm\<rparr>"
  let ?rpd2 = "?rpd1\<lparr>download_full_file_name :=
                       path_join (download_path ?rpd1) (download_name ?rpd1)\<rparr>"
  show ?case
  proof
    assume all: "\<forall>src dst. rename_raises (fs w) src dst = Some EEXIST"
    show False
    proof (cases "os_path_exists (fs ?w1) (download_full_file_name ?rpd2)")
      case True
      then have "loop nm full_name ?rpd2 ?w1 = Some y"
        using step(2) by (simp add: Let_def)
      from step(1) [OF this] show False
        using all by simp
    next
      case False
      have ren: "os_rename (fs ?w1) (temp_full_file_name ?rpd2) (download_full_file_name ?rpd2)
                   = (Some EEXIST,
                      (fs ?w1)\<lparr>calls := calls (fs ?w1)
                         @ [Rename (temp_full_file_name ?rpd2) (download_full_file_name ?rpd2)]\<rparr>)"
        using all by (simp add: os_rename_def Let_def)
      let ?f1 = "(fs ?w1)\<lparr>calls := calls (fs ?w1)
                         @ [Rename (temp_full_file_name ?rpd2) (download_full_file_name ?rpd2)]\<rparr>"
      have "loop nm full_name ?rpd2 (?w1\<lparr>fs := ?f1\<rparr>) = Some y"
        using step(2) False ren by (simp add: Let_def)
      from step(1) [OF this] show False
        using all by simp
    qed
  qed
qed

text \<open>
  C9 as stated fails: the source has no ceiling on the identifiers it tries, and the
  handler lets the loop go on whenever the error is \<^verbatim>\<open>EEXIST\<close>. On a file system
  where every rename raises \<^verbatim>\<open>EEXIST\<close> the loop never returns.
\<close>

theorem add_unique_identifier_no_ceiling_counterexample:
  "add_unique_identifier photo_named worker_rename_eexist = None"
proof (cases "add_unique_identifier photo_named worker_rename_eexist")
  case None
  then show ?thesis .
next
  case (Some y)
  then have "\<not> (\<forall>src dst. rename_raises (fs worker_rename_eexist) src dst = Some EEXIST)"
    unfolding add_unique_identifier_def
    by (rule add_unique_identifier_loop_needs_other_error)
  then show ?thesis
    by (simp add: worker_rename_eexist_def EEXIST_def)
qed

text \<open>
  C9 as amended. Under the add-identifier policy the loop that renames with an identifier
  has two exits: a rename to a name that did not exist succeeds (\<open>True\<close>), or a rename
  fails with an error other than \<^verbatim>\<open>EEXIST\<close> (\<open>False\<close>). It returns on every
  consistent file system, one where a rename raises \<^verbatim>\<open>EEXIST\<close> only for a
  destination that exists; the number of identifiers it tries is then at least one and at
  most the number of existing paths plus one.
\<close>

theorem add_unique_identifier_returns:
  assumes "rename_consistent (fs w)"
  shows "\<exists>ok rpd' w'.
     add_unique_identifier rpd_file w = Some (ok, rpd', w')
     \<and> duplicate_files_get w (download_full_file_name rpd_file)
         < duplicate_files_get w' (download_full_file_name rpd_file)
     \<and> duplicate_files_get w' (download_full_file_name rpd_file)
         \<le> duplicate_files_get w (download_full_file_name rpd_file)
            + int (length (existing (fs w))) + 1
     \<and> download_full_file_name rpd' \<notin> set (existing (fs w))
     \<and> (ok \<longrightarrow> status rpd' = downloaded_with_warning
             \<and> download_full_file_name rpd' \<in> set (existing (fs w'))
             \<and> last (calls (fs w'))
                 = Rename (temp_full_file_name rpd_file) (download_full_file_name rpd'))
     \<and> (\<not> ok \<longrightarrow> status rpd' = download_failed
             \<and> (\<exists>err. err \<noteq> EEXIST
                   \<and> fst (os_rename (fs w) (temp_full_file_name rpd_file)
                            (download_full_file_name rpd')) = Some err))"
proof -
  obtain s e where se: "splitext (download_name rpd_file) = (s, e)"
    by (cases "splitext (download_name rpd_file)")
  let ?full = "download_full_file_name rpd_file"
  let ?S = "{j. duplicate_files_get w ?full < j
              \<and> path_join (download_path rpd_file) (s @ ''_'' @ str_int j @ e)
                  \<in> set (existing (fs w))}"
  have c: "card ?S \<le> length (existing (fs w))"
    by (rule candidates_card)
  obtain ok rpd' w' where
    res: "add_unique_identifier_loop (s, e) ?full rpd_file w = Some (ok, rpd', w')"
    and lo: "duplicate_files_get w ?full < duplicate_files_get w' ?full"
    and hi: "duplicate_files_get w' ?full \<le> duplicate_files_get w ?full + 1 + int (card ?S)"
    and rest: "download_full_file_name rpd' \<notin> set (existing (fs w))"
      "ok \<longrightarrow> status rpd' = downloaded_with_warning
             \<and> download_full_file_name rpd' \<in> set (existing (fs w'))
             \<and> last (calls (fs w'))
                 = Rename (temp_full_file_name rpd_file) (download_full_file_name rpd')"
      "\<not> ok \<longrightarrow> status rpd' = download_failed
             \<and> existing (fs w') = existing (fs w)
             \<and> (\<exists>err. err \<noteq> EEXIST
                   \<and> fst (os_rename (fs w) (temp_full_file_name rpd_file)
                            (download_full_file_name rpd')) = Some err)"
    using add_unique_identifier_loop_returns [OF assms, of s e ?full rpd_file] by blast
  have "add_unique_identifier rpd_file w = Some (ok, rpd', w')"
    using res by (simp add: add_unique_identifier_def se)
  moreover have "duplicate_files_get w' ?full
                   \<le> duplicate_files_get w ?full + int (length (existing (fs w))) + 1"
    using hi c by linarith
  ultimately show ?thesis
    using lo rest by blast
qed

theorem add_unique_identifier_returns_witness:
  "rename_consistent (fs worker_taken)
   \<and> (\<exists>ok rpd' w'. add_unique_identifier photo_named worker_taken = Some (ok, rpd', w')
         \<and> ok \<and> download_name rpd' = ''IMG_2.JPG''
         \<and> duplicate_files_get w' ''/dest/2024/IMG.JPG'' = 2
         \<and> duplicate_files_get w' (download_full_file_name photo_named)
             \<le> duplicate_files_get worker_taken (download_full_file_name photo_named)
                + int (length (existing (fs worker_taken))) + 1
         \<and> status rpd' = downloaded_with_warning)"
proof -
  have h: "rename_consistent (fs worker_taken)"
    by (simp add: rename_consistent_def evaluation)
  have ev: "\<exists>rpd' w'. add_unique_identifier photo_named worker_taken = Some (True, rpd', w')
              \<and> download_name rpd' = ''IMG_2.JPG''
              \<and> duplicate_files_get w' ''/dest/2024/IMG.JPG'' = 2"
    by (simp add: evaluation)
  show ?thesis
    using h ev add_unique_identifier_returns [OF h, of photo_named] by auto
qed
section \<open>Fatal errors of name generation\<close>

lemma check_fatal_result:
  "check_for_fatal_name_generation_errors r = (ok, r') \<Longrightarrow>
   download_subfolder r' = download_subfolder r \<and> download_name r' = download_name r
   \<and> (ok \<longleftrightarrow> download_subfolder r \<noteq> [] \<and> download_name r \<noteq> [])
   \<and> (ok \<longrightarrow> r' = r)
   \<and> (\<not> ok \<longrightarrow> status r' = download_failed
         \<and> problem r' = problem r @ [ERROR_IN_NAME_GENERATION (name_generation_area r)])"
  by (auto simp: check_for_fatal_name_generation_errors_def add_problem_def split: if_splits)

lemma generate_names_result:
  assumes "generate_names gn w r = Inr (ok, r')"
  shows "(ok \<longleftrightarrow> download_subfolder r' \<noteq> [] \<and> download_name r' \<noteq> [])
   \<and> (\<not> ok \<longrightarrow> status r' = download_failed \<and> problem r' \<noteq> []
         \<and> last (problem r') = ERROR_IN_NAME_GENERATION (name_generation_area r'))"
proof -
  obtain r2 where c: "check_for_fatal_name_generation_errors r2 = (ok, r')"
    using assms unfolding generate_names_def Let_def by (auto split: if_splits)
  have a: "name_generation_area r' = name_generation_area r2"
    using check_fatal_result [OF c] by (simp add: name_generation_area_def)
  show ?thesis
    using check_fatal_result [OF c] a by auto
qed

lemma sync_raw_jpg_worker:
  "sync_raw_jpg r w = Inr (res, r1, w1) \<Longrightarrow>
   fs w1 = fs w \<and> prefs w1 = prefs w \<and> sync_raw_jpeg w1 = sync_raw_jpeg w
   \<and> duplicate_files w1 = duplicate_files w
   \<and> downloads_today_tracker w1 = downloads_today_tracker w
   \<and> logged_errors w1 = logged_errors w
   \<and> session_sequence_no (sequences w1) = session_sequence_no (sequences w)
   \<and> sequence_letter (sequences w1) = sequence_letter (sequences w)
   \<and> stored_sequence_no (sequences w1) = stored_sequence_no (sequences w)"
  unfolding sync_raw_jpg_def set_matched_sequence_value_def
  by (auto split: prod.splits option.splits bool.splits if_splits)

lemma synchronize_worker:
  "synchronize r w = Inr (sync, r1, w1) \<Longrightarrow>
   fs w1 = fs w \<and> prefs w1 = prefs w \<and> sync_raw_jpeg w1 = sync_raw_jpeg w
   \<and> duplicate_files w1 = duplicate_files w
   \<and> downloads_today_tracker w1 = downloads_today_tracker w
   \<and> logged_errors w1 = logged_errors w
   \<and> session_sequence_no (sequences w1) = session_sequence_no (sequences w)
   \<and> sequence_letter (sequences w1) = sequence_letter (sequences w)
   \<and> stored_sequence_no (sequences w1) = stored_sequence_no (sequences w)"
  unfolding synchronize_def Let_def
  by (auto split: if_splits prod.splits sum.splits dest!: sync_raw_jpg_worker)

text \<open>
  C5. When the subfolder or the file name that name generation leaves in the file is
  empty, processing the file returns \<open>False\<close> with the worker as it was before
  generation: the file system is the same, with no call recorded (no directory made, no
  rename). The status of the file is download_failed and the last problem added is
  \<open>ERROR_IN_NAME_GENERATION\<close> with the area that was empty: subfolder and filename,
  filename, or subfolder.
\<close>

theorem empty_name_fails_before_filesystem:
  assumes "synchronize rpd_file w = Inr (sync, rpd1, w1)"
    and "\<not> (case sync of None \<Rightarrow> False | Some r \<Rightarrow> failed r)"
    and "generate_names gn w1 rpd1 = Inr (ok, rpd2)"
    and "download_subfolder rpd2 = [] \<or> download_name rpd2 = []"
  shows "process_file gn rpd_file w = Some (Inr (False, rpd2, w1))
    \<and> fs w1 = fs w
    \<and> status rpd2 = download_failed
    \<and> problem rpd2 \<noteq> []
    \<and> last (problem rpd2) =
        ERROR_IN_NAME_GENERATION
          (if download_subfolder rpd2 = [] \<and> download_name rpd2 = [] then subfolder_and_filename
           else if download_name rpd2 = [] then filename
           else subfolder_only)"
proof -
  have nok: "\<not> ok"
    using generate_names_result [OF assms(3)] assms(4) by blast
  then have "process_file gn rpd_file w = Some (Inr (False, rpd2, w1))"
    using assms(1,2,3) by (simp add: process_file_def)
  moreover have "fs w1 = fs w"
    using synchronize_worker [OF assms(1)] by simp
  moreover have "status rpd2 = download_failed" "problem rpd2 \<noteq> []"
    "last (problem rpd2) = ERROR_IN_NAME_GENERATION (name_generation_area rpd2)"
    using generate_names_result [OF assms(3)] nok by auto
  ultimately show ?thesis
    by (simp add: name_generation_area_def)
qed

theorem empty_name_fails_before_filesystem_witness:
  "\<exists>rpd2 w1.
     process_file gn_example (photo_example ''a.JPG'' ''/tmp/a.JPG'') worker_no_subfolder
       = Some (Inr (False, rpd2, w1))
     \<and> download_subfolder rpd2 = []
     \<and> fs w1 = fs worker_no_subfolder \<and> calls (fs w1) = []
     \<and> status rpd2 = download_failed
     \<and> last (problem rpd2) = ERROR_IN_NAME_GENERATION subfolder_and_filename"
proof -
  let ?f = "photo_example ''a.JPG'' ''/tmp/a.JPG''"
  let ?s = "projr (synchronize ?f worker_no_subfolder)"
  let ?g = "projr (generate_names gn_example (snd (snd ?s)) (fst (snd ?s)))"
  have h1: "synchronize ?f worker_no_subfolder = Inr (fst ?s, fst (snd ?s), snd (snd ?s))"
    by (simp add: evaluation)
  have h2: "\<not> (case fst ?s of None \<Rightarrow> False | Some r \<Rightarrow> failed r)"
    by (simp add: evaluation)
  have h3: "generate_names gn_example (snd (snd ?s)) (fst (snd ?s)) = Inr (fst ?g, snd ?g)"
    by (simp add: evaluation)
  have h4: "download_subfolder (snd ?g) = [] \<or> download_name (snd ?g) = []"
    by (simp add: evaluation)
  have e: "download_subfolder (snd ?g) = []" "download_name (snd ?g) = []"
    "calls (fs worker_no_subfolder) = []"
    by (simp_all add: evaluation)
  show ?thesis
    using empty_name_fails_before_filesystem [OF h1 h2 h3 h4] e by auto
qed
section \<open>Sequence values advance after a successful move only\<close>

lemma add_unique_identifier_loop_values:
  "add_unique_identifier_loop nm full_name rpd_file w = Some y \<Longrightarrow>
   sequence_values (snd (snd y)) = sequence_values w
   \<and> prefs (snd (snd y)) = prefs w
   \<and> sync_raw_jpeg (snd (snd y)) = sync_raw_jpeg w
   \<and> sequences (snd (snd y)) = sequences w
   \<and> downloads_today_tracker (snd (snd y)) = downloads_today_tracker w
   \<and> metadata (fst (snd y)) = metadata rpd_file"
proof (induction rule: add_unique_identifier_loop.raw_induct [rotated 1, consumes 1, case_names step])
  case (step loop nm full_name rpd_file w y)
  let ?n = "duplicate_files_get w full_name + 1"
  let ?w1 = "w\<lparr>duplicate_files := (duplicate_files w)(full_name \<mapsto> ?n)\<rparr>"
  let ?rpd1 = "rpd_file\<lparr>download_name := fst nm @ (''_'' @ str_int ?n) @ snd nm\<rparr>"
  let ?rpd2 = "?rpd1\<lparr>download_full_file_name :=
                       path_join (download_path ?rpd1) (download_name ?rpd1)\<rparr>"
  have w1: "sequence_values ?w1 = sequence_values w" "prefs ?w1 = prefs w"
    "sync_raw_jpeg ?w1 = sync_raw_jpeg w" "sequences ?w1 = sequences w"
    "downloads_today_tracker ?w1 = downloads_today_tracker w"
    by (simp_all add: sequence_values_def)
  have r2: "metadata ?rpd2 = metadata rpd_file"
    by simp
  have wf: "\<And>f1. sequence_values (?w1\<lparr>fs := f1\<rparr>) = sequence_values w
                \<and> prefs (?w1\<lparr>fs := f1\<rparr>) = prefs w
                \<and> sync_raw_jpeg (?w1\<lparr>fs := f1\<rparr>) = sync_raw_jpeg w
                \<and> sequences (?w1\<lparr>fs := f1\<rparr>) = sequences w
                \<and> downloads_today_tracker (?w1\<lparr>fs := f1\<rparr>) = downloads_today_tracker w"
    by (simp add: sequence_values_def)
  show ?case
  proof (cases "os_path_exists (fs ?w1) (download_full_file_name ?rpd2)")
    case True
    then have "loop nm full_name ?rpd2 ?w1 = Some y"
      using step(2) by (simp add: Let_def)
    from step(1) [OF this] show ?thesis
      using w1 r2 by simp
  next
    case False
    obtain r f1 where ren:
      "os_rename (fs ?w1) (temp_full_file_name ?rpd2) (download_full_file_name ?rpd2) = (r, f1)"
      by (cases "os_rename (fs ?w1) (temp_full_file_name ?rpd2) (download_full_file_name ?rpd2)")
    show ?thesis
    proof (cases r)
      case None
      then have "y = (True, notify_file_already_exists (Some (''_'' @ str_int ?n)) ?rpd2,
                      ?w1\<lparr>fs := f1\<rparr>)"
        using step(2) False ren by (simp add: Let_def)
      then show ?thesis
        using wf [of f1] by (simp add: notify_file_already_exists_def add_problem_def)
    next
      case (Some err)
      show ?thesis
      proof (cases "err = EEXIST")
        case True
        then have "loop nm full_name ?rpd2 (?w1\<lparr>fs := f1\<rparr>) = Some y"
          using step(2) False ren Some by (simp add: Let_def)
        from step(1) [OF this] show ?thesis
          using wf [of f1] r2 by simp
      next
        case ne: False
        then have "y = (False, (add_problem DOWNLOAD_COPYING_ERROR ?rpd2)
                                 \<lparr>status := download_failed\<rparr>,
                        logging_error (''Failed to create file ''
                                         @ download_full_file_name ?rpd2
                                         @ '': '' @ os_strerror err) (?w1\<lparr>fs := f1\<rparr>))"
          using step(2) False ren Some
          by (simp add: Let_def notify_download_failure_file_error_def)
        then show ?thesis
          using wf [of f1]
          by (simp add: add_problem_def logging_error_def sequence_values_def)
      qed
    qed
  qed
qed

lemma add_unique_identifier_values:
  "add_unique_identifier rpd_file w = Some (ok, rpd', w') \<Longrightarrow>
   sequence_values w' = sequence_values w \<and> prefs w' = prefs w
   \<and> sync_raw_jpeg w' = sync_raw_jpeg w \<and> sequences w' = sequences w
   \<and> downloads_today_tracker w' = downloads_today_tracker w
   \<and> metadata rpd' = metadata rpd_file"
  unfolding add_unique_identifier_def
  by (drule add_unique_identifier_loop_values) simp

text \<open>The worker after the directory of the destination has been made, if it was missing.\<close>

lemma makedirs_step_values:
  assumes "w1 = make_download_path p w"
  shows "sequence_values w1 = sequence_values w \<and> prefs w1 = prefs w
     \<and> sync_raw_jpeg w1 = sync_raw_jpeg w \<and> sequences w1 = sequences w
     \<and> downloads_today_tracker w1 = downloads_today_tracker w
     \<and> rename_raises (fs w1) = rename_raises (fs w)
     \<and> set (existing (fs w)) \<subseteq> set (existing (fs w1))"
  unfolding assms make_download_path_def
  by (auto simp: sequence_values_def logging_error_def os_makedirs_def Let_def
           split: prod.splits option.splits if_splits)

lemma move_file_values:
  assumes "move_file rpd_file w = Some (b, rpd', w')"
  shows "sequence_values w' = sequence_values w \<and> prefs w' = prefs w
     \<and> sync_raw_jpeg w' = sync_raw_jpeg w \<and> sequences w' = sequences w
     \<and> downloads_today_tracker w' = downloads_today_tracker w
     \<and> metadata rpd' = metadata rpd_file"
proof -
  let ?rpd1 = "rpd_file\<lparr>download_path :=
                 path_join (download_folder rpd_file) (download_subfolder rpd_file)\<rparr>"
  let ?rpd2 = "?rpd1\<lparr>download_full_file_name :=
                 path_join (download_path ?rpd1) (download_name ?rpd1)\<rparr>"
  let ?rpd3 = "?rpd2\<lparr>download_full_base_name := fst (splitext (download_full_file_name ?rpd2))\<rparr>"
  define w1 where "w1 = make_download_path (download_path ?rpd3) w"
  have v1: "sequence_values w1 = sequence_values w" "prefs w1 = prefs w"
    "sync_raw_jpeg w1 = sync_raw_jpeg w" "sequences w1 = sequences w"
    "downloads_today_tracker w1 = downloads_today_tracker w"
    using makedirs_step_values [OF w1_def] by simp_all
  have vf: "\<And>f. sequence_values (w1\<lparr>fs := f\<rparr>) = sequence_values w
               \<and> prefs (w1\<lparr>fs := f\<rparr>) = prefs w
               \<and> sync_raw_jpeg (w1\<lparr>fs := f\<rparr>) = sync_raw_jpeg w
               \<and> sequences (w1\<lparr>fs := f\<rparr>) = sequences w
               \<and> downloads_today_tracker (w1\<lparr>fs := f\<rparr>) = downloads_today_tracker w"
    using v1 by (simp add: sequence_values_def)
  have m3: "metadata ?rpd3 = metadata rpd_file"
    by simp
  have eq: "move_file rpd_file w =
     (if os_path_exists (fs w1) (download_full_file_name ?rpd3) then
           (case download_file_exists w1 ?rpd3 of
              (True, rpd4) \<Rightarrow>
                (case add_unique_identifier rpd4 w1 of
                   None \<Rightarrow> None
                 | Some (r, rpd5, w5) \<Rightarrow> Some (False, rpd5, w5))
            | (False, rpd4) \<Rightarrow> Some (False, rpd4, w1))
         else
           (case os_rename (fs w1) (temp_full_file_name ?rpd3) (download_full_file_name ?rpd3) of
              (None, f2) \<Rightarrow>
                Some (True,
                      (if status ?rpd3 \<noteq> downloaded_with_warning
                       then ?rpd3\<lparr>status := downloaded\<rparr> else ?rpd3),
                      w1\<lparr>fs := f2\<rparr>)
            | (Some e, f2) \<Rightarrow>
                if e = EEXIST then
                  (case download_file_exists (w1\<lparr>fs := f2\<rparr>) ?rpd3 of
                     (True, rpd4) \<Rightarrow>
                       (case add_unique_identifier rpd4 (w1\<lparr>fs := f2\<rparr>) of
                          None \<Rightarrow> None
                        | Some (r, rpd5, w5) \<Rightarrow> Some (False, rpd5, w5))
                   | (False, rpd4) \<Rightarrow> Some (False, rpd4, w1\<lparr>fs := f2\<rparr>))
                else
                  (case notify_download_failure_file_error ?rpd3 (os_strerror e)
                          (w1\<lparr>fs := f2\<rparr>) of
                     (rpd4, w4) \<Rightarrow> Some (False, rpd4, w4))))"
    unfolding move_file_def w1_def Let_def ..
  have dfe: "\<And>wa b4 rpd4. download_file_exists wa ?rpd3 = (b4, rpd4) \<Longrightarrow>
               metadata rpd4 = metadata rpd_file"
    by (auto simp: download_file_exists_def notify_file_already_exists_def add_problem_def
             split: if_splits)
  show ?thesis
  proof (cases "os_path_exists (fs w1) (download_full_file_name ?rpd3)")
    case True
    obtain b4 rpd4 where d: "download_file_exists w1 ?rpd3 = (b4, rpd4)"
      by (cases "download_file_exists w1 ?rpd3")
    show ?thesis
    proof (cases b4)
      case True
      then obtain r where "add_unique_identifier rpd4 w1 = Some (r, rpd', w')"
        using assms eq \<open>os_path_exists (fs w1) (download_full_file_name ?rpd3)\<close> d
        by (auto split: option.splits)
      from add_unique_identifier_values [OF this] show ?thesis
        using v1 dfe [OF d] by simp
    next
      case False
      then have "rpd' = rpd4" "w' = w1"
        using assms eq \<open>os_path_exists (fs w1) (download_full_file_name ?rpd3)\<close> d
        by auto
      then show ?thesis
        using v1 dfe [OF d] by simp
    qed
  next
    case nex: False
    obtain r f2 where ren:
      "os_rename (fs w1) (temp_full_file_name ?rpd3) (download_full_file_name ?rpd3) = (r, f2)"
      by (cases "os_rename (fs w1) (temp_full_file_name ?rpd3) (download_full_file_name ?rpd3)")
    show ?thesis
    proof (cases r)
      case None
      then have "w' = w1\<lparr>fs := f2\<rparr>" "metadata rpd' = metadata ?rpd3"
        using assms eq nex ren by (auto split: if_splits)
      then show ?thesis
        using vf [of f2] by simp
    next
      case (Some e)
      show ?thesis
      proof (cases "e = EEXIST")
        case True
        obtain b4 rpd4 where d: "download_file_exists (w1\<lparr>fs := f2\<rparr>) ?rpd3 = (b4, rpd4)"
          by (cases "download_file_exists (w1\<lparr>fs := f2\<rparr>) ?rpd3")
        show ?thesis
        proof (cases b4)
          case b4: True
          then obtain r where
            "add_unique_identifier rpd4 (w1\<lparr>fs := f2\<rparr>) = Some (r, rpd', w')"
            using assms eq nex ren Some True d by (auto split: option.splits)
          from add_unique_identifier_values [OF this] show ?thesis
            using vf [of f2] dfe [OF d] by simp
        next
          case False
          then have "rpd' = rpd4" "w' = w1\<lparr>fs := f2\<rparr>"
            using assms eq nex ren Some True d by auto
          then show ?thesis
            using vf [of f2] dfe [OF d] by simp
        qed
      next
        case False
        then have "w' = logging_error (''Failed to create file '' @ download_full_file_name ?rpd3
                                         @ '': '' @ os_strerror e)
                          (w1\<lparr>fs := f2\<rparr>)"
          "metadata rpd' = metadata ?rpd3"
          using assms eq nex ren Some
          by (auto simp: notify_download_failure_file_error_def add_problem_def)
        then show ?thesis
          using vf [of f2] by (simp add: logging_error_def sequence_values_def)
      qed
    qed
  qed
qed

lemma rename_consistent_mono:
  "rename_consistent f \<Longrightarrow> rename_raises f1 = rename_raises f \<Longrightarrow>
   set (existing f) \<subseteq> set (existing f1) \<Longrightarrow> rename_consistent f1"
  unfolding rename_consistent_def by auto

lemma add_unique_identifier_Some:
  "rename_consistent (fs w) \<Longrightarrow> \<exists>y. add_unique_identifier rpd_file w = Some y"
  unfolding add_unique_identifier_def
  using add_unique_identifier_loop_returns
    [of w "fst (splitext (download_name rpd_file))" "snd (splitext (download_name rpd_file))"
        "download_full_file_name rpd_file" rpd_file]
  by auto

lemma move_file_returns:
  assumes "rename_consistent (fs w)"
  shows "\<exists>y. move_file rpd_file w = Some y"
proof -
  let ?rpd1 = "rpd_file\<lparr>download_path :=
                 path_join (download_folder rpd_file) (download_subfolder rpd_file)\<rparr>"
  let ?rpd2 = "?rpd1\<lparr>download_full_file_name :=
                 path_join (download_path ?rpd1) (download_name ?rpd1)\<rparr>"
  let ?rpd3 = "?rpd2\<lparr>download_full_base_name := fst (splitext (download_full_file_name ?rpd2))\<rparr>"
  define w1 where "w1 = make_download_path (download_path ?rpd3) w"
  have c1: "rename_consistent (fs w1)"
    using makedirs_step_values [OF w1_def] assms rename_consistent_mono by blast
  have eq: "move_file rpd_file w =
     (if os_path_exists (fs w1) (download_full_file_name ?rpd3) then
           (case download_file_exists w1 ?rpd3 of
              (True, rpd4) \<Rightarrow>
                (case add_unique_identifier rpd4 w1 of
                   None \<Rightarrow> None
                 | Some (r, rpd5, w5) \<Rightarrow> Some (False, rpd5, w5))
            | (False, rpd4) \<Rightarrow> Some (False, rpd4, w1))
         else
           (case os_rename (fs w1) (temp_full_file_name ?rpd3) (download_full_file_name ?rpd3) of
              (None, f2) \<Rightarrow>
                Some (True,
                      (if status ?rpd3 \<noteq> downloaded_with_warning
                       then ?rpd3\<lparr>status := downloaded\<rparr> else ?rpd3),
                      w1\<lparr>fs := f2\<rparr>)
            | (Some e, f2) \<Rightarrow>
                if e = EEXIST then
                  (case download_file_exists (w1\<lparr>fs := f2\<rparr>) ?rpd3 of
                     (True, rpd4) \<Rightarrow>
                       (case add_unique_identifier rpd4 (w1\<lparr>fs := f2\<rparr>) of
                          None \<Rightarrow> None
                        | Some (r, rpd5, w5) \<Rightarrow> Some (False, rpd5, w5))
                   | (False, rpd4) \<Rightarrow> Some (False, rpd4, w1\<lparr>fs := f2\<rparr>))
                else
                  (case notify_download_failure_file_error ?rpd3 (os_strerror e)
                          (w1\<lparr>fs := f2\<rparr>) of
                     (rpd4, w4) \<Rightarrow> Some (False, rpd4, w4))))"
    unfolding move_file_def w1_def Let_def ..
  show ?thesis
  proof (cases "os_path_exists (fs w1) (download_full_file_name ?rpd3)")
    case True
    obtain b4 rpd4 where d: "download_file_exists w1 ?rpd3 = (b4, rpd4)"
      by (cases "download_file_exists w1 ?rpd3")
    obtain y where "add_unique_identifier rpd4 w1 = Some y"
      using add_unique_identifier_Some [OF c1] by blast
    then show ?thesis
      unfolding eq using True d by (cases b4; cases y) auto
  next
    case nex: False
    obtain r f2 where ren:
      "os_rename (fs w1) (temp_full_file_name ?rpd3) (download_full_file_name ?rpd3) = (r, f2)"
      by (cases "os_rename (fs w1) (temp_full_file_name ?rpd3) (download_full_file_name ?rpd3)")
    show ?thesis
    proof (cases r)
      case None
      then show ?thesis unfolding eq using nex ren by auto
    next
      case (Some e)
      have "e \<noteq> EEXIST"
        using os_rename_error_not_EEXIST [OF c1 _ ren [unfolded Some]] nex
        by (simp add: os_path_exists_def)
      then show ?thesis
        unfolding eq using nex ren Some by (auto split: prod.splits)
    qed
  qed
qed

lemma increment_sequences_values:
  "sequence_values (increment_sequences w) =
     (session_sequence_no (sequences w)
        + (if any_pref_uses_session_sequence_no (prefs w) then 1 else 0),
      sequence_letter (sequences w)
        + (if any_pref_uses_sequence_letter_value (prefs w) then 1 else 0),
      stored_sequence_no (sequences w),
      prefs_stored_sequence_no (prefs w)
        + (if any_pref_uses_stored_sequence_no (prefs w) then 1 else 0),
      snd (downloads_today (downloads_today_tracker w)) + 1)"
  by (simp add: increment_sequences_def increment_def increment_downloads_today_def
        sequence_values_def Let_def)

lemma record_download_values:
  "sequence_values (record_download gn sr rpd_file w) = sequence_values w"
  by (simp add: record_download_def sequence_values_def Let_def split: option.splits)

lemma move_thm_file_keeps:
  "move_thm_file r w = (r', w') \<Longrightarrow>
   status r' = status r \<and> problem r' = problem r \<and> metadata r' = metadata r
   \<and> temp_audio_full_name r' = temp_audio_full_name r
   \<and> temp_xmp_full_name r' = temp_xmp_full_name r
   \<and> sequence_values w' = sequence_values w \<and> prefs w' = prefs w
   \<and> sync_raw_jpeg w' = sync_raw_jpeg w \<and> sequences w' = sequences w
   \<and> downloads_today_tracker w' = downloads_today_tracker w"
  by (auto simp: move_thm_file_def move_associate_file_def Let_def logging_error_def
        sequence_values_def split: prod.splits option.splits if_splits)

lemma move_audio_file_keeps:
  "move_audio_file r w = (r', w') \<Longrightarrow>
   status r' = status r \<and> problem r' = problem r \<and> metadata r' = metadata r
   \<and> temp_xmp_full_name r' = temp_xmp_full_name r
   \<and> sequence_values w' = sequence_values w \<and> prefs w' = prefs w
   \<and> sync_raw_jpeg w' = sync_raw_jpeg w \<and> sequences w' = sequences w
   \<and> downloads_today_tracker w' = downloads_today_tracker w"
  by (auto simp: move_audio_file_def move_associate_file_def Let_def logging_error_def
        sequence_values_def split: prod.splits option.splits if_splits)

lemma move_xmp_file_keeps:
  "move_xmp_file r w = (r', w') \<Longrightarrow>
   status r' = status r \<and> problem r' = problem r \<and> metadata r' = metadata r
   \<and> sequence_values w' = sequence_values w \<and> prefs w' = prefs w
   \<and> sync_raw_jpeg w' = sync_raw_jpeg w \<and> sequences w' = sequences w
   \<and> downloads_today_tracker w' = downloads_today_tracker w"
  by (auto simp: move_xmp_file_def Let_def logging_error_def
        sequence_values_def split: prod.splits option.splits if_splits)

lemma move_sidecars_keeps:
  assumes "move_sidecars r w = (r', w')"
  shows "status r' = status r \<and> problem r' = problem r \<and> metadata r' = metadata r
   \<and> sequence_values w' = sequence_values w \<and> prefs w' = prefs w
   \<and> sync_raw_jpeg w' = sync_raw_jpeg w \<and> sequences w' = sequences w
   \<and> downloads_today_tracker w' = downloads_today_tracker w"
proof -
  obtain r1 w1 where s1: "(if temp_thm_full_name r \<noteq> [] then move_thm_file r w
            else (r, w)) = (r1, w1)"
    by (cases "if temp_thm_full_name r \<noteq> [] then move_thm_file r w else (r, w)")
  obtain r2 w2 where s2: "(if temp_audio_full_name r1 \<noteq> [] then move_audio_file r1 w1
                 else (r1, w1)) = (r2, w2)"
    by (cases "if temp_audio_full_name r1 \<noteq> [] then move_audio_file r1 w1 else (r1, w1)")
  have s3: "(if temp_xmp_full_name r2 \<noteq> [] then move_xmp_file r2 w2 else (r2, w2)) = (r', w')"
    using assms s1 s2 by (simp add: move_sidecars_def)
  have k1: "status r1 = status r \<and> problem r1 = problem r \<and> metadata r1 = metadata r
     \<and> sequence_values w1 = sequence_values w \<and> prefs w1 = prefs w
     \<and> sync_raw_jpeg w1 = sync_raw_jpeg w \<and> sequences w1 = sequences w
     \<and> downloads_today_tracker w1 = downloads_today_tracker w"
    using s1 move_thm_file_keeps [of r w r1 w1] by (auto split: if_splits)
  have k2: "status r2 = status r1 \<and> problem r2 = problem r1 \<and> metadata r2 = metadata r1
     \<and> sequence_values w2 = sequence_values w1 \<and> prefs w2 = prefs w1
     \<and> sync_raw_jpeg w2 = sync_raw_jpeg w1 \<and> sequences w2 = sequences w1
     \<and> downloads_today_tracker w2 = downloads_today_tracker w1"
    using s2 move_audio_file_keeps [of r1 w1 r2 w2] by (auto split: if_splits)
  have k3: "status r' = status r2 \<and> problem r' = problem r2 \<and> metadata r' = metadata r2
     \<and> sequence_values w' = sequence_values w2 \<and> prefs w' = prefs w2
     \<and> sync_raw_jpeg w' = sync_raw_jpeg w2 \<and> sequences w' = sequences w2
     \<and> downloads_today_tracker w' = downloads_today_tracker w2"
    using s3 move_xmp_file_keeps [of r2 w2 r' w'] by (auto split: if_splits)
  show ?thesis
    using k1 k2 k3 by simp
qed

lemma after_move_values:
  assumes "after_move gn sync r w = (r', w')"
  shows "sequence_values w' =
           (if (case sync of None \<Rightarrow> True | Some sr \<Rightarrow> sequence_to_use sr = None)
            then sequence_values (increment_sequences w) else sequence_values w)"
proof -
  let ?w1 = "case sync of None \<Rightarrow> w | Some sr \<Rightarrow> record_download gn sr r w"
  have a: "sequence_values ?w1 = sequence_values w" "prefs ?w1 = prefs w"
    "sequences ?w1 = sequences w" "downloads_today_tracker ?w1 = downloads_today_tracker w"
    by (simp_all add: record_download_def sequence_values_def Let_def split: option.splits)
  have b: "sequence_values (increment_sequences ?w1) = sequence_values (increment_sequences w)"
    unfolding increment_sequences_values a ..
  let ?w2 = "if (case sync of None \<Rightarrow> True | Some sr \<Rightarrow> sequence_to_use sr = None)
             then increment_sequences ?w1 else ?w1"
  have "move_sidecars r ?w2 = (r', w')"
    using assms by (simp add: after_move_def Let_def)
  then have "sequence_values w' = sequence_values ?w2"
    using move_sidecars_keeps by blast
  then show ?thesis
    using a(1) b by simp
qed

lemma process_file_values:
  assumes "process_file gn rpd_file w = Some (Inr (ok, rpd', w'))"
  shows "(\<not> ok \<longrightarrow> sequence_values w' = sequence_values w)
     \<and> (ok \<longrightarrow> sequence_values w' =
           (if (case fst (projr (synchronize rpd_file w)) of
                  None \<Rightarrow> True | Some sr \<Rightarrow> sequence_to_use sr = None)
            then sequence_values (increment_sequences w) else sequence_values w))"
proof -
  obtain sync rpd1 w1 where s: "synchronize rpd_file w = Inr (sync, rpd1, w1)"
    using assms by (auto simp: process_file_def split: sum.splits)
  have v1: "sequence_values w1 = sequence_values w" "prefs w1 = prefs w"
    using synchronize_worker [OF s] by (simp_all add: sequence_values_def)
  show ?thesis
  proof (cases "case sync of None \<Rightarrow> False | Some r \<Rightarrow> failed r")
    case True
    then have "ok = False" "w' = w1"
      using assms s by (simp_all add: process_file_def)
    then show ?thesis using v1 by simp
  next
    case nf: False
    obtain g rpd2 where gen: "generate_names gn w1 rpd1 = Inr (g, rpd2)"
      using assms s nf by (auto simp: process_file_def split: sum.splits)
    show ?thesis
    proof (cases g)
      case False
      then have "ok = False" "w' = w1"
        using assms s nf gen by (simp_all add: process_file_def)
      then show ?thesis using v1 by simp
    next
      case True
      then obtain b rpd3 w3 where mv: "move_file rpd2 w1 = Some (b, rpd3, w3)"
        using assms s nf gen by (auto simp: process_file_def split: option.splits)
      have v3: "sequence_values w3 = sequence_values w" "prefs w3 = prefs w"
        using move_file_values [OF mv] v1 by simp_all
      show ?thesis
      proof (cases b)
        case False
        then have "ok = False" "w' = w3"
          using assms s nf gen True mv by (simp_all add: process_file_def)
        then show ?thesis using v3 by simp
      next
        case b: True
        obtain rpd4 w4 where am: "after_move gn sync rpd3 w3 = (rpd4, w4)"
          by (cases "after_move gn sync rpd3 w3")
        have "ok = True" "w' = w4"
          using assms s nf gen True mv b am by (simp_all add: process_file_def)
        moreover have "sequence_values (increment_sequences w3)
                         = sequence_values (increment_sequences w)"
          using v3 unfolding increment_sequences_values by (simp add: sequence_values_def)
        ultimately show ?thesis
          using after_move_values [OF am] v3 s by simp
      qed
    qed
  qed
qed

lemma process_file_returns:
  assumes "rename_consistent (fs w)"
  shows "\<exists>y. process_file gn rpd_file w = Some y"
proof (cases "synchronize rpd_file w")
  case (Inl e)
  then show ?thesis by (simp add: process_file_def)
next
  case (Inr t)
  obtain sync rpd1 w1 where t: "t = (sync, rpd1, w1)"
    by (cases t)
  have s: "synchronize rpd_file w = Inr (sync, rpd1, w1)"
    using Inr t by simp
  have "fs w1 = fs w"
    using synchronize_worker [OF s] by simp
  then have c: "rename_consistent (fs w1)"
    using assms by simp
  show ?thesis
  proof (cases "generate_names gn w1 rpd1")
    case (Inl e)
    then show ?thesis
      using s by (simp add: process_file_def)
  next
    case g: (Inr u)
    obtain y where "move_file (snd u) w1 = Some y"
      using move_file_returns [OF c] by blast
    then show ?thesis
      using s g by (cases u; cases y) (auto simp: process_file_def split: bool.splits)
  qed
qed

lemma sync_raw_jpg_session:
  "sync_raw_jpg r w = Inr (res, r1, w1) \<Longrightarrow> session_attributes w1 = session_attributes w"
  unfolding sync_raw_jpg_def
  by (auto split: prod.splits option.splits bool.splits if_splits)

lemma synchronize_session:
  "synchronize r w = Inr (sync, r1, w1) \<Longrightarrow> session_attributes w1 = session_attributes w"
  unfolding synchronize_def Let_def
  by (auto split: if_splits prod.splits sum.splits dest!: sync_raw_jpg_session)

lemma sync_raw_jpg_returns:
  assumes "et_process w" and "session_attributes w"
  shows "\<exists>t. sync_raw_jpg r w = Inr t"
  using assms unfolding sync_raw_jpg_def
  by (simp split: prod.splits option.splits bool.splits)

lemma synchronize_returns:
  assumes "session_attributes w"
    and "must_synchronize_raw_jpg (prefs w) \<longrightarrow> et_process w"
  shows "\<exists>t. synchronize r w = Inr t"
proof (cases "must_synchronize_raw_jpg (prefs w) \<and> file_type (prepare_rpd_file w r) = photo")
  case True
  then obtain t where "sync_raw_jpg (prepare_rpd_file w r) w = Inr t"
    using sync_raw_jpg_returns assms by blast
  then show ?thesis
    using True by (cases t) (simp add: synchronize_def)
next
  case False
  then show ?thesis
    by (auto simp: synchronize_def)
qed

lemma generate_names_returns:
  "session_attributes w \<Longrightarrow> \<exists>t. generate_names gn w r = Inr t"
  by (simp add: generate_names_def Let_def)

lemma process_file_returns_result:
  assumes "rename_consistent (fs w)" and "session_attributes w"
    and "must_synchronize_raw_jpg (prefs w) \<longrightarrow> et_process w"
  shows "\<exists>t. process_file gn rpd_file w = Some (Inr t)"
proof -
  obtain y where y: "process_file gn rpd_file w = Some y"
    using process_file_returns [OF assms(1)] by blast
  obtain t where "synchronize rpd_file w = Inr t"
    using synchronize_returns [OF assms(2,3)] by blast
  then obtain sync rpd1 w1 where s: "synchronize rpd_file w = Inr (sync, rpd1, w1)"
    by (cases t) simp
  have "session_attributes w1"
    using synchronize_session [OF s] assms(2) by simp
  then obtain u where g: "generate_names gn w1 rpd1 = Inr u"
    using generate_names_returns by blast
  show ?thesis
    using y s g unfolding process_file_def
    by (cases u) (auto split: if_splits bool.splits option.splits prod.splits)
qed

lemma process_rename_failure_values:
  "sequence_values (process_rename_failure r w) = sequence_values w"
  by (simp add: process_rename_failure_def Let_def logging_error_def os_remove_def
        sequence_values_def split: prod.splits option.splits)

text \<open>
  C1. For every file request: when the round ends it reports \<open>move_succeeded\<close>; if that
  is \<open>False\<close> (the download, the name generation or the move failed) no sequence value
  has changed; if it is \<open>True\<close> the session sequence number, the sequence letter index,
  the stored sequence number of the preferences and the downloads today have each
  advanced by one or not at all, and the stored sequence number held by the sequences is
  unchanged. On a file system where a rename raises 'file exists' only for an existing
  destination the round ends, with a result or an exception; after download_started, and
  with the ExifTool process at hand when RAW and JPEG are synchronised, it ends with a
  result.
\<close>

theorem sequence_values_advance_once:
  "(\<forall>content w'.
      file_round gn rpd_file download_count download_succeeded w = Some (Inr (content, w'))
        \<longrightarrow>
      (\<exists>moved rpd'. content = file_results moved rpd' download_count
         \<and> (\<not> moved \<longrightarrow> sequence_values w' = sequence_values w)
         \<and> (moved \<longrightarrow>
               session_sequence_no (sequences w') - session_sequence_no (sequences w) \<in> {0, 1}
             \<and> sequence_letter (sequences w') - sequence_letter (sequences w) \<in> {0, 1}
             \<and> stored_sequence_no (sequences w') = stored_sequence_no (sequences w)
             \<and> prefs_stored_sequence_no (prefs w') - prefs_stored_sequence_no (prefs w) \<in> {0, 1}
             \<and> snd (downloads_today (downloads_today_tracker w'))
                 - snd (downloads_today (downloads_today_tracker w)) \<in> {0, 1})))
   \<and> (rename_consistent (fs w) \<longrightarrow>
        (\<exists>y. file_round gn rpd_file download_count download_succeeded w = Some y))
   \<and> (rename_consistent (fs w) \<and> session_attributes w
        \<and> (must_synchronize_raw_jpg (prefs w) \<longrightarrow> et_process w) \<longrightarrow>
        (\<exists>content w'.
           file_round gn rpd_file download_count download_succeeded w
             = Some (Inr (content, w'))))"
proof (intro conjI allI impI)
  fix content w'
  assume fr: "file_round gn rpd_file download_count download_succeeded w
                = Some (Inr (content, w'))"
  show "\<exists>moved rpd'. content = file_results moved rpd' download_count
         \<and> (\<not> moved \<longrightarrow> sequence_values w' = sequence_values w)
         \<and> (moved \<longrightarrow>
               session_sequence_no (sequences w') - session_sequence_no (sequences w) \<in> {0, 1}
             \<and> sequence_letter (sequences w') - sequence_letter (sequences w) \<in> {0, 1}
             \<and> stored_sequence_no (sequences w') = stored_sequence_no (sequences w)
             \<and> prefs_stored_sequence_no (prefs w') - prefs_stored_sequence_no (prefs w) \<in> {0, 1}
             \<and> snd (downloads_today (downloads_today_tracker w'))
                 - snd (downloads_today (downloads_today_tracker w)) \<in> {0, 1})"
  proof (cases download_succeeded)
    case False
    then have "content = file_results False (rpd_file\<lparr>metadata := None\<rparr>) download_count"
      "w' = w"
      using fr by (simp_all add: file_round_def)
    then show ?thesis by blast
  next
    case True
    then obtain ok rpd1 w1 where pf: "process_file gn rpd_file w = Some (Inr (ok, rpd1, w1))"
      using fr by (auto simp: file_round_def split: option.splits sum.splits)
    show ?thesis
    proof (cases ok)
      case False
      then have "content = file_results False (rpd1\<lparr>metadata := None\<rparr>) download_count"
        "w' = process_rename_failure rpd1 w1"
        using fr True pf by (simp_all add: file_round_def)
      moreover have "sequence_values w1 = sequence_values w"
        using process_file_values [OF pf] False by simp
      ultimately show ?thesis
        using process_rename_failure_values by auto
    next
      case ok: True
      then have c: "content = file_results True (rpd1\<lparr>metadata := None\<rparr>) download_count"
        and w: "w' = w1"
        using fr True pf by (simp_all add: file_round_def)
      have "sequence_values w1 = sequence_values (increment_sequences w)
            \<or> sequence_values w1 = sequence_values w"
        using process_file_values [OF pf] ok by (simp split: if_splits)
      then have "session_sequence_no (sequences w1) - session_sequence_no (sequences w) \<in> {0, 1}
             \<and> sequence_letter (sequences w1) - sequence_letter (sequences w) \<in> {0, 1}
             \<and> stored_sequence_no (sequences w1) = stored_sequence_no (sequences w)
             \<and> prefs_stored_sequence_no (prefs w1) - prefs_stored_sequence_no (prefs w) \<in> {0, 1}
             \<and> snd (downloads_today (downloads_today_tracker w1))
                 - snd (downloads_today (downloads_today_tracker w)) \<in> {0, 1}"
        unfolding increment_sequences_values
        by (auto simp: sequence_values_def)
      then show ?thesis
        using c w by blast
    qed
  qed
next
  assume "rename_consistent (fs w)"
  then obtain y where "process_file gn rpd_file w = Some y"
    using process_file_returns by blast
  then show "\<exists>y. file_round gn rpd_file download_count download_succeeded w = Some y"
    by (cases y) (auto simp: file_round_def split: bool.splits sum.splits)
next
  assume "rename_consistent (fs w) \<and> session_attributes w
            \<and> (must_synchronize_raw_jpg (prefs w) \<longrightarrow> et_process w)"
  then obtain t where "process_file gn rpd_file w = Some (Inr t)"
    using process_file_returns_result by blast
  then show "\<exists>content w'. file_round gn rpd_file download_count download_succeeded w
                             = Some (Inr (content, w'))"
    by (cases t) (auto simp: file_round_def split: bool.splits)
qed

theorem sequence_values_advance_once_witness:
  "rename_consistent (fs worker_example)
   \<and> session_attributes worker_example
   \<and> \<not> must_synchronize_raw_jpg (prefs worker_example)
   \<and> (\<exists>rpd' w'.
        file_round gn_example (photo_example ''a.JPG'' ''/tmp/a.JPG'') 1 True worker_example
          = Some (Inr (file_results True rpd' 1, w'))
        \<and> sequence_values worker_example = (0, 0, 5, 5, 3)
        \<and> sequence_values w' = (1, 0, 5, 6, 4)
        \<and> session_sequence_no (sequences w') - session_sequence_no (sequences worker_example)
            \<in> {0, 1})
   \<and> (\<exists>rpd' w'.
        file_round gn_example (photo_example ''a.JPG'' ''/tmp/a.JPG'') 1 True worker_no_subfolder
          = Some (Inr (file_results False rpd' 1, w'))
        \<and> sequence_values w' = sequence_values worker_no_subfolder)"
proof -
  have h: "rename_consistent (fs worker_example)"
    by (simp add: rename_consistent_def evaluation)
  have e1: "\<exists>rpd' w'.
        file_round gn_example (photo_example ''a.JPG'' ''/tmp/a.JPG'') 1 True worker_example
          = Some (Inr (file_results True rpd' 1, w'))
        \<and> sequence_values w' = (1, 0, 5, 6, 4)"
    by (simp add: evaluation sequence_values_def)
  have e0: "sequence_values worker_example = (0, 0, 5, 5, 3)"
    by (simp add: evaluation sequence_values_def)
  have a: "session_attributes worker_example"
    "\<not> must_synchronize_raw_jpg (prefs worker_example)"
    by (simp_all add: evaluation)
  have e2: "\<exists>rpd' w'.
        file_round gn_example (photo_example ''a.JPG'' ''/tmp/a.JPG'') 1 True worker_no_subfolder
          = Some (Inr (file_results False rpd' 1, w'))"
    by (simp add: evaluation)
  show ?thesis
    using h a e0 e1 e2
      sequence_values_advance_once [of gn_example "photo_example ''a.JPG'' ''/tmp/a.JPG''"
        1 True worker_example]
      sequence_values_advance_once [of gn_example "photo_example ''a.JPG'' ''/tmp/a.JPG''"
        1 True worker_no_subfolder]
    by (auto simp del: insert_iff)
qed
section \<open>Properties of the preference editor\<close>

lemma parse_fragments_triples:
  "triples ed \<Longrightarrow> triples (parse_fragments TEXT SEPARATOR frags ed)"
  by (induction frags arbitrary: ed) (auto simp: triples_def Let_def)

lemma parseTextFragment_triples:
  "triples ed \<Longrightarrow> triples (parseTextFragment TEXT SEPARATOR f ed)"
  unfolding parseTextFragment_def
  by (auto simp: parse_fragments_triples) (simp add: triples_def)

lemma add_pref_value_triples:
  "triples ed \<Longrightarrow> add_pref_value doc b ed = Inr ed' \<Longrightarrow> triples ed'"
  by (auto simp: add_pref_value_def addColor_def triples_def split: option.splits prod.splits)

lemma pref_values_loop_triples:
  "triples ed \<Longrightarrow> pref_values_loop TEXT SEPARATOR doc bs ed = Inr ed' \<Longrightarrow> triples ed'"
proof (induction TEXT SEPARATOR doc bs ed rule: pref_values_loop.induct)
  case (1 TEXT SEPARATOR doc b0 item bs ed)
  from "1.prems"(2) obtain ed1 where
    a: "add_pref_value doc b0 ed = Inr ed1" and
    l: "pref_values_loop TEXT SEPARATOR doc (item # bs)
          (parseTextFragment TEXT SEPARATOR (slice doc (snd b0 + 1) (fst item)) ed1) = Inr ed'"
    by (simp split: sum.splits)
  have "triples ed1"
    using "1.prems"(1) a by (rule add_pref_value_triples)
  then have "triples (parseTextFragment TEXT SEPARATOR (slice doc (snd b0 + 1) (fst item)) ed1)"
    by (rule parseTextFragment_triples)
  then show ?case
    using "1.IH" [OF a] l by blast
qed simp_all

lemma final_pref_value_triples:
  "triples ed \<Longrightarrow> final_pref_value doc b ed = Inr (ed', final) \<Longrightarrow> triples ed'"
  unfolding final_pref_value_def
  by (cases "b = []") (auto split: sum.splits intro: add_pref_value_triples)

lemma generatePrefList_before_assert:
  assumes "generatePrefList TEXT SEPARATOR doc b ed0 = r"
  shows "r \<noteq> Inl AssertionError \<and> (\<forall>ed'. r = Inr ed' \<longrightarrow> triples ed')"
proof -
  let ?ed = "ed0\<lparr>user_pref_list := [], user_pref_colors := []\<rparr>"
  let ?ed1 = "if b \<noteq> [] \<and> fst (hd b) > 0
              then parseTextFragment TEXT SEPARATOR (slice doc 0 (fst (hd b))) ?ed else ?ed"
  have "triples ?ed"
    by (simp add: triples_def)
  then have t1: "triples ?ed1"
    by (simp add: parseTextFragment_triples)
  show ?thesis
  proof (cases "pref_values_loop TEXT SEPARATOR doc b ?ed1")
    case (Inl e)
    then have "r = Inl e" using assms by (simp add: generatePrefList_def)
    moreover have "e = KeyError \<or> e = AssertionError" by (cases e) auto
    moreover have "e \<noteq> AssertionError"
    proof
      assume "e = AssertionError"
      have "\<And>ed bs. pref_values_loop TEXT SEPARATOR doc bs ed \<noteq> Inl AssertionError"
      proof -
        fix ed bs
        show "pref_values_loop TEXT SEPARATOR doc bs ed \<noteq> Inl AssertionError"
          by (induction TEXT SEPARATOR doc bs ed rule: pref_values_loop.induct)
             (auto simp: add_pref_value_def addColor_def split: sum.splits option.splits prod.splits)
      qed
      with Inl \<open>e = AssertionError\<close> show False by blast
    qed
    ultimately show ?thesis by auto
  next
    case (Inr ed2)
    then have t2: "triples ed2" using t1 pref_values_loop_triples by blast
    show ?thesis
    proof (cases "final_pref_value doc b ed2")
      case (Inl e)
      then have "e = KeyError"
        by (auto simp: final_pref_value_def add_pref_value_def addColor_def
                 split: if_splits sum.splits option.splits prod.splits)
      with Inl Inr assms show ?thesis by (auto simp: generatePrefList_def)
    next
      case r3: (Inr p)
      obtain ed3 final where p: "p = (ed3, final)" by (cases p)
      have t3: "triples ed3" using t2 r3 p final_pref_value_triples by blast
      let ?ed4 = "if final < length doc
                  then parseTextFragment TEXT SEPARATOR (drop final doc) ed3 else ed3"
      have t4: "triples ?ed4" using t3 by (simp add: parseTextFragment_triples)
      then have "3 * length (user_pref_colors ?ed4) = length (user_pref_list ?ed4)"
        by (simp add: triples_def)
      then have "r = Inr ?ed4"
        using assms Inr r3 p unfolding generatePrefList_def Let_def by simp
      with t4 show ?thesis by auto
    qed
  qed
qed

text \<open>
  The run ends with a result (no \<^verbatim>\<open>KeyError\<close>) when every boundary delimits a
  pref value the two dicts know.
\<close>

lemma add_pref_value_returns:
  "slice doc (fst b + 1) (snd b) \<in> dom (string_to_pref_mapper ed) \<Longrightarrow>
   slice doc (fst b) (snd b + 1) \<in> dom (pref_color ed) \<Longrightarrow>
   \<exists>ed'. add_pref_value doc b ed = Inr ed'
      \<and> string_to_pref_mapper ed' = string_to_pref_mapper ed \<and> pref_color ed' = pref_color ed"
  by (auto simp: add_pref_value_def addColor_def split: option.splits)

text \<open>
  C10. A run of generatePrefList never fails its closing assertion, and the lists it
  produces satisfy: the length of user_pref_list is divisible by 3, and user_pref_colors
  has exactly a third as many entries.
\<close>

theorem generatePrefList_triples:
  "generatePrefList TEXT SEPARATOR doc b ed0 \<noteq> Inl AssertionError
   \<and> (\<forall>ed'. generatePrefList TEXT SEPARATOR doc b ed0 = Inr ed' \<longrightarrow>
         3 dvd length (user_pref_list ed')
         \<and> length (user_pref_colors ed') = length (user_pref_list ed') div 3)"
proof (intro conjI allI impI)
  show "generatePrefList TEXT SEPARATOR doc b ed0 \<noteq> Inl AssertionError"
    using generatePrefList_before_assert [OF refl] by blast
next
  fix ed' assume "generatePrefList TEXT SEPARATOR doc b ed0 = Inr ed'"
  then have t: "length (user_pref_list ed') = 3 * length (user_pref_colors ed')"
    using generatePrefList_before_assert [OF refl] unfolding triples_def by blast
  show "3 dvd length (user_pref_list ed')"
    by (simp add: t)
  show "length (user_pref_colors ed') = length (user_pref_list ed') div 3"
    by (simp add: t)
qed

theorem generatePrefList_triples_witness:
  "\<exists>ed'. generatePrefList ''Text'' ''/'' ''a/b<YYYY>c'' [(3, 8)]
           \<lparr>subfolder = True,
            string_to_pref_mapper = [''YYYY'' \<mapsto> (''Date time'', ''Image date'', ''YYYY'')],
            pref_color = [''<YYYY>'' \<mapsto> ''#49d8fb''],
            user_pref_list = [''stale''], user_pref_colors = []\<rparr> = Inr ed'
      \<and> user_pref_list ed' =
            [''Text'', ''a'', [], ''/'', [], [], ''Text'', ''b'', [],
             ''Date time'', ''Image date'', ''YYYY'', ''Text'', ''c'', []]
      \<and> user_pref_colors ed' = [[], [], [], ''#49d8fb'', []]
      \<and> 3 dvd length (user_pref_list ed')
      \<and> length (user_pref_colors ed') = length (user_pref_list ed') div 3"
  using generatePrefList_triples [of "''Text''" "''/''" "''a/b<YYYY>c''" "[(3, 8)]"
           "\<lparr>subfolder = True,
            string_to_pref_mapper = [''YYYY'' \<mapsto> (''Date time'', ''Image date'', ''YYYY'')],
            pref_color = [''<YYYY>'' \<mapsto> ''#49d8fb''],
            user_pref_list = [''stale''], user_pref_colors = []\<rparr>"]
  by (simp add: generatePrefList_def parseTextFragment_def slice_def final_pref_value_def
        add_pref_value_def addColor_def)

section \<open>Sidecar files\<close>

text \<open>
  C8 as stated fails: the thumbnail of this photo cannot be moved, the photo itself is
  placed and reported with status downloaded, and its problems are empty. The failure is
  in the error log only.
\<close>

theorem sidecar_failure_not_a_problem_counterexample:
  "process_file gn_example photo_with_thm worker_example \<noteq> None
   \<and> fst (projr (the (process_file gn_example photo_with_thm worker_example)))
   \<and> status (fst (snd (projr (the (process_file gn_example photo_with_thm worker_example)))))
       = downloaded
   \<and> problem (fst (snd (projr (the (process_file gn_example photo_with_thm worker_example))))) = []
   \<and> existing (fs (snd (snd (projr (the (process_file gn_example photo_with_thm worker_example))))))
       = [''/dest/2024/IMG.JPG'', ''/dest/2024'', ''/tmp/b.JPG'', ''/tmp/c.JPG'',
          ''/tmp/a.CR2'', ''/tmp/a.THM'']
   \<and> logged_errors (snd (snd (projr (the (process_file gn_example photo_with_thm worker_example)))))
       = [''Failed to move video THM file /dest/2024/IMG.THM'']"
  by (simp add: evaluation)

lemma move_thm_file_failure:
  assumes "fst (os_rename (fs u) (temp_thm_full_name r)
                  (download_full_base_name r
                     @ (if thm_extension r \<noteq> [] then thm_extension r else ''.THM''))) \<noteq> None"
  shows "problem (fst (move_thm_file r u)) = problem r
     \<and> status (fst (move_thm_file r u)) = status r
     \<and> logged_errors (snd (move_thm_file r u))
         = logged_errors u
           @ [''Failed to move video THM file '' @ download_full_base_name r
                @ (if thm_extension r \<noteq> [] then thm_extension r else ''.THM'')]"
proof -
  define ext where "ext = (if thm_extension r \<noteq> [] then thm_extension r else ''.THM'')"
  obtain e f1 where "os_rename (fs u) (temp_thm_full_name r) (download_full_base_name r @ ext)
                       = (Some e, f1)"
    using assms unfolding ext_def [symmetric]
    by (cases "os_rename (fs u) (temp_thm_full_name r) (download_full_base_name r @ ext)") auto
  then show ?thesis
    unfolding ext_def [symmetric]
    by (simp add: move_thm_file_def move_associate_file_def Let_def logging_error_def
          ext_def [symmetric])
qed

lemma move_audio_file_failure:
  assumes "fst (os_rename (fs u) (temp_audio_full_name r)
                  (download_full_base_name r
                     @ (if audio_extension r \<noteq> [] then audio_extension r else ''.WAV''))) \<noteq> None"
  shows "problem (fst (move_audio_file r u)) = problem r
     \<and> status (fst (move_audio_file r u)) = status r
     \<and> logged_errors (snd (move_audio_file r u))
         = logged_errors u
           @ [''Failed to move file's associated audio file '' @ download_full_base_name r
                @ (if audio_extension r \<noteq> [] then audio_extension r else ''.WAV'')]"
proof -
  define ext where "ext = (if audio_extension r \<noteq> [] then audio_extension r else ''.WAV'')"
  obtain e f1 where "os_rename (fs u) (temp_audio_full_name r) (download_full_base_name r @ ext)
                       = (Some e, f1)"
    using assms unfolding ext_def [symmetric]
    by (cases "os_rename (fs u) (temp_audio_full_name r) (download_full_base_name r @ ext)") auto
  then show ?thesis
    unfolding ext_def [symmetric]
    by (simp add: move_audio_file_def move_associate_file_def Let_def logging_error_def
          ext_def [symmetric])
qed

lemma move_xmp_file_failure:
  assumes "fst (os_rename (fs u) (temp_xmp_full_name r)
                  (download_full_base_name r @ xmp_extension r)) \<noteq> None"
  shows "problem (fst (move_xmp_file r u)) = problem r
     \<and> status (fst (move_xmp_file r u)) = status r
     \<and> logged_errors (snd (move_xmp_file r u))
         = logged_errors u
           @ [''Failed to move XMP sidecar file '' @ download_full_base_name r
                @ xmp_extension r]"
proof -
  obtain e f1 where "os_rename (fs u) (temp_xmp_full_name r)
                       (download_full_base_name r @ xmp_extension r) = (Some e, f1)"
    using assms
    by (cases "os_rename (fs u) (temp_xmp_full_name r)
                 (download_full_base_name r @ xmp_extension r)") auto
  then show ?thesis
    by (simp add: move_xmp_file_def Let_def logging_error_def)
qed

text \<open>
  C8 as amended. Once the primary file has been moved, \<^verbatim>\<open>process_file\<close> returns
  \<open>True\<close> whatever happens to the sidecar files, and the status and the problems of the
  file are those it had when the primary move succeeded: a sidecar that cannot be moved
  adds no problem. Each failed sidecar move adds one line to the error log.
\<close>

theorem sidecar_failure_keeps_outcome:
  assumes "synchronize rpd_file w = Inr (sync, rpd1, w1)"
    and "\<not> (case sync of None \<Rightarrow> False | Some r \<Rightarrow> failed r)"
    and "generate_names gn w1 rpd1 = Inr (True, rpd2)"
    and "move_file rpd2 w1 = Some (True, rpd3, w3)"
  shows "(\<exists>rpd4 w4. process_file gn rpd_file w = Some (Inr (True, rpd4, w4))
            \<and> status rpd4 = status rpd3 \<and> problem rpd4 = problem rpd3)
    \<and> (\<forall>r u. fst (os_rename (fs u) (temp_thm_full_name r)
                     (download_full_base_name r
                        @ (if thm_extension r \<noteq> [] then thm_extension r else ''.THM''))) \<noteq> None
           \<longrightarrow> problem (fst (move_thm_file r u)) = problem r
             \<and> status (fst (move_thm_file r u)) = status r
             \<and> logged_errors (snd (move_thm_file r u))
                 = logged_errors u
                   @ [''Failed to move video THM file '' @ download_full_base_name r
                        @ (if thm_extension r \<noteq> [] then thm_extension r else ''.THM'')])
    \<and> (\<forall>r u. fst (os_rename (fs u) (temp_audio_full_name r)
                     (download_full_base_name r
                        @ (if audio_extension r \<noteq> [] then audio_extension r else ''.WAV''))) \<noteq> None
           \<longrightarrow> problem (fst (move_audio_file r u)) = problem r
             \<and> status (fst (move_audio_file r u)) = status r
             \<and> logged_errors (snd (move_audio_file r u))
                 = logged_errors u
                   @ [''Failed to move file's associated audio file ''
                        @ download_full_base_name r
                        @ (if audio_extension r \<noteq> [] then audio_extension r else ''.WAV'')])
    \<and> (\<forall>r u. fst (os_rename (fs u) (temp_xmp_full_name r)
                     (download_full_base_name r @ xmp_extension r)) \<noteq> None
           \<longrightarrow> problem (fst (move_xmp_file r u)) = problem r
             \<and> status (fst (move_xmp_file r u)) = status r
             \<and> logged_errors (snd (move_xmp_file r u))
                 = logged_errors u
                   @ [''Failed to move XMP sidecar file '' @ download_full_base_name r
                        @ xmp_extension r])"
proof (intro conjI allI impI)
  obtain rpd4 w4 where am: "after_move gn sync rpd3 w3 = (rpd4, w4)"
    by (cases "after_move gn sync rpd3 w3")
  then have "move_sidecars rpd3
               (if (case sync of None \<Rightarrow> True | Some sr \<Rightarrow> sequence_to_use sr = None)
                then increment_sequences
                       (case sync of None \<Rightarrow> w3 | Some sr \<Rightarrow> record_download gn sr rpd3 w3)
                else (case sync of None \<Rightarrow> w3 | Some sr \<Rightarrow> record_download gn sr rpd3 w3))
             = (rpd4, w4)"
    by (simp add: after_move_def Let_def)
  then have "status rpd4 = status rpd3 \<and> problem rpd4 = problem rpd3"
    using move_sidecars_keeps by blast
  moreover have "process_file gn rpd_file w = Some (Inr (True, rpd4, w4))"
    using assms am by (simp add: process_file_def)
  ultimately show "\<exists>rpd4 w4. process_file gn rpd_file w = Some (Inr (True, rpd4, w4))
            \<and> status rpd4 = status rpd3 \<and> problem rpd4 = problem rpd3"
    by blast
qed (simp_all add: move_thm_file_failure move_audio_file_failure move_xmp_file_failure)

theorem sidecar_failure_keeps_outcome_witness:
  "\<exists>rpd4 w4.
      process_file gn_example photo_with_thm worker_example = Some (Inr (True, rpd4, w4))
      \<and> status rpd4 = downloaded \<and> problem rpd4 = []"
proof -
  let ?s = "projr (synchronize photo_with_thm worker_example)"
  let ?g = "projr (generate_names gn_example (snd (snd ?s)) (fst (snd ?s)))"
  let ?m = "move_file (snd ?g) (snd (snd ?s))"
  have h1: "synchronize photo_with_thm worker_example = Inr (fst ?s, fst (snd ?s), snd (snd ?s))"
    by (simp add: evaluation)
  have h2: "\<not> (case fst ?s of None \<Rightarrow> False | Some r \<Rightarrow> failed r)"
    by (simp add: evaluation)
  have h3: "generate_names gn_example (snd (snd ?s)) (fst (snd ?s)) = Inr (True, snd ?g)"
    by (simp add: evaluation)
  have h4: "?m = Some (True, fst (snd (the ?m)), snd (snd (the ?m)))"
    by (simp add: evaluation)
  have e: "status (fst (snd (the ?m))) = downloaded" "problem (fst (snd (the ?m))) = []"
    by (simp_all add: evaluation)
  have "\<exists>rpd4 w4.
      process_file gn_example photo_with_thm worker_example = Some (Inr (True, rpd4, w4))
      \<and> status rpd4 = status (fst (snd (the ?m)))
      \<and> problem rpd4 = problem (fst (snd (the ?m)))"
    using sidecar_failure_keeps_outcome [OF h1 h2 h3 h4] by (rule conjunct1)
  then show ?thesis
    unfolding e .
qed
section \<open>What download_started resets\<close>

lemma two_downloads_run:
  "\<exists>outs w. run gn_example two_downloads (worker_at_start prefs_example fs_example False)
              = Some (Inr (outs, w))
     \<and> map reported_name outs = [''IMG.JPG'', ''IMG_1.JPG'', []]
     \<and> duplicate_files w ''/dest/2024/IMG.JPG'' = Some 1
     \<and> sequences w = \<lparr>session_sequence_no = 0, sequence_letter = 0,
                       stored_sequence_no = 5, matched_sequences = None\<rparr>
     \<and> downloads_today (downloads_today_tracker w) = (''2024-01-03'', 0)"
  by (simp add: evaluation)

text \<open>
  C7 as stated fails: when the second download has started, the dict of duplicate files
  still holds the counter that the first download left for \<open>/dest/2024/IMG.JPG\<close>.
\<close>

theorem download_started_keeps_duplicates_counterexample:
  "duplicate_files
     (snd (projr (the (run gn_example two_downloads
                         (worker_at_start prefs_example fs_example False)))))
     ''/dest/2024/IMG.JPG'' = Some 1"
  using two_downloads_run by auto

text \<open>
  C7 as amended. The round of download_started sends nothing; it takes the synchronised
  preferences, makes a tracker of downloads today from them and rolls it against the
  current day, and makes new sequences: session sequence number and sequence letter index
  reset, stored sequence number from the preferences, no matched sequences. It leaves
  the pairing tracker, the dict of duplicate files and the file system as they are; the
  two dicts are empty when the loop of run starts.
\<close>

theorem download_started_resets_sequences:
  "run_round gn (download_started synced today) w
     = Some (Inr ([], download_started_round synced today w))
   \<and> prefs (download_started_round synced today w) = synced
   \<and> sequences (download_started_round synced today w)
       = \<lparr>session_sequence_no = 0, sequence_letter = 0,
          stored_sequence_no = prefs_stored_sequence_no synced, matched_sequences = None\<rparr>
   \<and> day_start (downloads_today_tracker (download_started_round synced today w))
       = prefs_day_start synced
   \<and> downloads_today (downloads_today_tracker (download_started_round synced today w))
       = (if fst (prefs_downloads_today synced) = today then prefs_downloads_today synced
          else (today, 0))
   \<and> session_attributes (download_started_round synced today w)
   \<and> sync_raw_jpeg (download_started_round synced today w) = sync_raw_jpeg w
   \<and> duplicate_files (download_started_round synced today w) = duplicate_files w
   \<and> fs (download_started_round synced today w) = fs w
   \<and> sync_raw_jpeg (worker_at_start p f e) = Map.empty
   \<and> duplicate_files (worker_at_start p f e) = Map.empty"
  by (simp add: run_round_def download_started_round_def get_or_reset_downloads_today_def
        new_Sequences_def worker_at_start_def Let_def prod_eq_iff)

theorem download_started_resets_sequences_witness:
  "sequences (download_started_round prefs_example ''2024-01-03''
               (snd (projr (the (run gn_example (butlast two_downloads)
                                   (worker_at_start prefs_example fs_example False))))))
     = \<lparr>session_sequence_no = 0, sequence_letter = 0, stored_sequence_no = 5,
        matched_sequences = None\<rparr>
   \<and> downloads_today (downloads_today_tracker
        (download_started_round prefs_example ''2024-01-03''
               (snd (projr (the (run gn_example (butlast two_downloads)
                                   (worker_at_start prefs_example fs_example False)))))))
     = (''2024-01-03'', 0)"
  using download_started_resets_sequences [of gn_example prefs_example "''2024-01-03''"
          "snd (projr (the (run gn_example (butlast two_downloads)
                              (worker_at_start prefs_example fs_example False))))"]
  by (simp add: prefs_example_def)
section \<open>Two defects, evaluated\<close>

lemma same_name_download_run:
  "\<exists>outs w. run gn_example same_name_download (worker_at_start prefs_example fs_example False)
              = Some (Inr (outs, w))
     \<and> map reported_moved outs = [True, False, False]
     \<and> map reported_status outs = [downloaded, downloaded_with_warning, downloaded_with_warning]
     \<and> map reported_name outs = [''IMG.JPG'', ''IMG_1.JPG'', ''IMG_2.JPG'']
     \<and> existing (fs w) = [''/dest/2024/IMG_2.JPG'', ''/dest/2024/IMG_1.JPG'',
                          ''/dest/2024/IMG.JPG'', ''/dest/2024'', ''/tmp/a.CR2'', ''/tmp/a.THM'']
     \<and> sequence_values w = (1, 0, 5, 6, 4)"
  by (simp add: evaluation sequence_values_def)

text \<open>
  C2 at three photos that generate the same name under the add-identifier policy. The
  first is placed as \<open>IMG.JPG\<close>. The second and the third are renamed to \<open>IMG_1.JPG\<close>
  and \<open>IMG_2.JPG\<close>, which exist afterwards, with status downloaded_with_warning; but
  the results sent for them say that the move did not succeed, and the sequence values
  have advanced for the first photo only.
\<close>

theorem identifier_added_reported_failed:
  "map reported_moved
     (fst (projr (the (run gn_example same_name_download
                         (worker_at_start prefs_example fs_example False)))))
     = [True, False, False]
   \<and> map reported_status
     (fst (projr (the (run gn_example same_name_download
                         (worker_at_start prefs_example fs_example False)))))
     = [downloaded, downloaded_with_warning, downloaded_with_warning]
   \<and> map reported_name
     (fst (projr (the (run gn_example same_name_download
                         (worker_at_start prefs_example fs_example False)))))
     = [''IMG.JPG'', ''IMG_1.JPG'', ''IMG_2.JPG'']
   \<and> existing (fs
     (snd (projr (the (run gn_example same_name_download
                         (worker_at_start prefs_example fs_example False))))))
     = [''/dest/2024/IMG_2.JPG'', ''/dest/2024/IMG_1.JPG'',
        ''/dest/2024/IMG.JPG'', ''/dest/2024'', ''/tmp/a.CR2'', ''/tmp/a.THM'']
   \<and> sequence_values
     (snd (projr (the (run gn_example same_name_download
                         (worker_at_start prefs_example fs_example False)))))
     = (1, 0, 5, 6, 4)"
  using same_name_download_run by auto

lemma one_photo_download_run:
  "\<exists>outs w. run gn_example one_photo_download (worker_at_start prefs_example fs_example False)
              = Some (Inr (outs, w))
     \<and> map reported_moved outs = [True, False]
     \<and> last outs = sequence_results 5 (''2024-01-02'', 4)
     \<and> prefs_stored_sequence_no (prefs w) = 6"
  by (simp add: evaluation)

text \<open>
  C6 at a download of one photo with preferences that use the stored sequence number,
  loaded as 5. The photo is placed, the stored sequence number of the preferences becomes
  6, and the result sent at the end of the download carries 5: it is read from the
  sequences, which the bump does not touch.
\<close>

theorem stored_sequence_no_sent_unbumped:
  "prefs_stored_sequence_no prefs_example = 5
   \<and> any_pref_uses_stored_sequence_no prefs_example
   \<and> map reported_moved
       (fst (projr (the (run gn_example one_photo_download
                           (worker_at_start prefs_example fs_example False)))))
       = [True, False]
   \<and> last (fst (projr (the (run gn_example one_photo_download
                                (worker_at_start prefs_example fs_example False)))))
       = sequence_results 5 (''2024-01-02'', 4)
   \<and> prefs_stored_sequence_no
       (prefs (snd (projr (the (run gn_example one_photo_download
                                  (worker_at_start prefs_example fs_example False))))))
       = 6"
  using one_photo_download_run by (auto simp: prefs_example_def)
section \<open>RAW and JPEG pairs\<close>

lemma raw_jpeg_download_with_et_process:
  "\<exists>outs w. run gn_example raw_jpeg_download (worker_at_start prefs_sync fs_example True)
              = Some (Inr (outs, w))
     \<and> map reported_moved outs = [True, True]
     \<and> map reported_name outs = [''IMG.CR2'', ''IMG.JPG'']
     \<and> sync_raw_jpeg w ''a'' = Some ([''.CR2'', ''.JPG''], 1700000000, ''42'', 0)
     \<and> matched_sequences (sequences w) = Some 0
     \<and> sequence_values w = (1, 0, 5, 6, 4)"
  by (simp add: evaluation sequence_values_def)

text \<open>
  C4 at the two files of one shot, with RAW and JPEG synchronised. A worker without the
  attribute \<^verbatim>\<open>et_process\<close> stops with \<^verbatim>\<open>AttributeError\<close> at the first photo:
  nothing is placed and nothing is paired. Were the attribute there, both files would be
  placed, the tracker would hold one entry for \<open>a\<close> with both extensions and the
  sequence number 0 of the first, and the sequence values would have advanced once.
\<close>

theorem raw_jpeg_pair_raises_AttributeError:
  "run gn_example raw_jpeg_download (worker_at_start prefs_sync fs_example False)
     = Some (Inl AttributeError)
   \<and> sync_raw_jpeg
       (snd (projr (the (run gn_example raw_jpeg_download
                           (worker_at_start prefs_sync fs_example True)))))
       ''a'' = Some ([''.CR2'', ''.JPG''], 1700000000, ''42'', 0)
   \<and> sequence_values
       (snd (projr (the (run gn_example raw_jpeg_download
                           (worker_at_start prefs_sync fs_example True)))))
       = (1, 0, 5, 6, 4)"
proof -
  have "run gn_example raw_jpeg_download (worker_at_start prefs_sync fs_example False)
          = Some (Inl AttributeError)"
    by (simp add: evaluation)
  then show ?thesis
    using raw_jpeg_download_with_et_process by auto
qed

end
